theory Spec2Isabelle
  imports
    Main
    "HOL-Library.Char_ord"
    "HOL-Library.List_Lexorder"
    "HOL-Library.Sublist"
    "HOL-Library.AList"
begin

section \<open>Strings and character classes\<close>

text \<open>
  The source is \<^verbatim>\<open>metapool/prep.py\<close>. A Python \<^verbatim>\<open>str\<close> is modelled as a
  \<^typ>\<open>string\<close>; a \<^typ>\<open>char\<close> stands for the Unicode code point of the same number, so
  the model covers the strings whose code points are below 256 (ASCII and the Latin-1
  supplement). The character classes below are those of Python's \<^verbatim>\<open>re\<close> module and of
  the \<^verbatim>\<open>str\<close> methods on that range.
\<close>

definition is_ascii_digit :: "char \<Rightarrow> bool" where
  \<comment> \<open>\<^verbatim>\<open>[0-9]\<close>; also \<^verbatim>\<open>\d\<close>, whose only members below 256 are the ASCII digits\<close>
  "is_ascii_digit c \<longleftrightarrow> CHR ''0'' \<le> c \<and> c \<le> CHR ''9''"

definition is_ascii_letter :: "char \<Rightarrow> bool" where
  \<comment> \<open>\<^verbatim>\<open>[a-zA-Z]\<close>, \<^verbatim>\<open>string.ascii_letters\<close>\<close>
  "is_ascii_letter c \<longleftrightarrow>
     (CHR ''a'' \<le> c \<and> c \<le> CHR ''z'') \<or> (CHR ''A'' \<le> c \<and> c \<le> CHR ''Z'')"

definition is_latin1_alnum :: "char \<Rightarrow> bool" where
  \<comment> \<open>the code points 128 to 255 for which \<^verbatim>\<open>str.isalnum\<close> holds: the ordinal
      indicators, the micro sign, superscript digits, vulgar fractions, and the letters
      (all of 192 to 255 but the multiplication and division signs)\<close>
  "is_latin1_alnum c \<longleftrightarrow>
     (let n = (of_char c :: nat) in
        n = 170 \<or> n = 181 \<or> n = 186 \<or> n = 178 \<or> n = 179 \<or> n = 185 \<or>
        (188 \<le> n \<and> n \<le> 190) \<or> (192 \<le> n \<and> n \<noteq> 215 \<and> n \<noteq> 247))"

definition is_word_char :: "char \<Rightarrow> bool" where
  \<comment> \<open>\<^verbatim>\<open>\w\<close> of a \<^verbatim>\<open>str\<close> pattern: alphanumeric or underscore\<close>
  "is_word_char c \<longleftrightarrow>
     is_ascii_digit c \<or> is_ascii_letter c \<or> c = CHR ''_'' \<or> is_latin1_alnum c"

definition py_isdigit :: "char \<Rightarrow> bool" where
  \<comment> \<open>\<^verbatim>\<open>str.isdigit\<close> on one character: the ASCII digits and the superscripts 1, 2, 3\<close>
  "py_isdigit c \<longleftrightarrow>
     is_ascii_digit c \<or> (let n = (of_char c :: nat) in n = 178 \<or> n = 179 \<or> n = 185)"

definition py_lower_char :: "char \<Rightarrow> char" where
  \<comment> \<open>\<^verbatim>\<open>str.lower\<close> on one character below 256\<close>
  "py_lower_char c =
     (let n = (of_char c :: nat) in
        if (65 \<le> n \<and> n \<le> 90) \<or> (192 \<le> n \<and> n \<le> 222 \<and> n \<noteq> 215)
        then char_of (n + 32) else c)"

definition py_lower :: "string \<Rightarrow> string" where
  "py_lower s = map py_lower_char s"

definition digit_val :: "char \<Rightarrow> nat" where
  "digit_val c = of_char c - 48"

definition digit_char :: "nat \<Rightarrow> char" where
  "digit_char n = char_of (48 + n)"

definition int_of_digits :: "string \<Rightarrow> nat" where
  \<comment> \<open>\<^verbatim>\<open>int(s)\<close> for a string of ASCII digits\<close>
  "int_of_digits s = foldl (\<lambda>acc c. 10 * acc + digit_val c) 0 s"

section \<open>Errors\<close>

text \<open>
  Every \<^verbatim>\<open>raise\<close> of the source, and every exception its expressions raise on the way,
  is a value of \<open>error\<close>. The constructors name the exception class and, for the
  \<^verbatim>\<open>ValueError\<close>s the source raises itself, the message:
  \<^item> \<open>Unrecognized_run_id\<close>: ValueError, 'Unrecognized run identifier format "...". The
    expected format is either YYMMDD_machinename_XXXX_FC or
    YYYYMMDD_machinename_XXXX-XXXX';
  \<^item> \<open>Strptime_error\<close>: the ValueError of \<^verbatim>\<open>datetime.strptime\<close>;
  \<^item> \<open>Malformed_instrument_model\<close>: ValueError, 'Cannot find a machine code. ...';
  \<^item> \<open>Invalid_pipeline\<close>: ValueError, 'Invalid pipeline "..."';
  \<^item> \<open>Mismatched_filenames\<close>: ValueError, "Forward and reverse sequences filenames
    don't match f:... r:...";
  \<^item> \<open>Missing_columns\<close>: ValueError, 'Required columns are missing: ...';
  \<^item> \<open>Missing_qiita_id\<close>: ValueError, 'Values in project_name must be appended with a
    Qiita Study ID.';
  \<^item> \<open>Missing_run_prefix\<close>: ValueError, 'A run-prefix could not be determined.';
  \<^item> \<open>Frame_assignment_error\<close>: the ValueError of pandas when a frame of several
    columns is assigned to one column;
  \<^item> \<open>AttributeError\<close>, \<open>KeyError\<close>, \<open>IndexError\<close>, \<open>UnboundLocalError\<close>: the
    built-in exceptions, with the attribute, key or variable concerned.
\<close>

datatype error =
    Unrecognized_run_id string
  | Strptime_error string
  | Malformed_instrument_model string
  | Invalid_pipeline string
  | Mismatched_filenames string string
  | Missing_columns "string list"
  | Missing_qiita_id
  | Missing_run_prefix
  | Frame_assignment_error
  | AttributeError string
  | KeyError string
  | IndexError
  | UnboundLocalError string

section \<open>Run identifiers\<close>

subsection \<open>The two regular expressions\<close>

definition matches6 :: "string \<Rightarrow> (string \<times> string) option" where
  \<comment> \<open>\<^verbatim>\<open>re.search(r'^(\d{6})_(\w*)', run_id)\<close>: the two groups of the match\<close>
  "matches6 run_id =
     (if 6 < length run_id \<and> list_all is_ascii_digit (take 6 run_id) \<and> run_id ! 6 = CHR ''_''
      then Some (take 6 run_id, takeWhile is_word_char (drop 7 run_id))
      else None)"

definition matches8 :: "string \<Rightarrow> (string \<times> string) option" where
  \<comment> \<open>\<^verbatim>\<open>re.search(r'^(\d{8})_([\w-]*)', run_id)\<close>\<close>
  "matches8 run_id =
     (if 8 < length run_id \<and> list_all is_ascii_digit (take 8 run_id) \<and> run_id ! 8 = CHR ''_''
      then Some (take 8 run_id,
                 takeWhile (\<lambda>c. is_word_char c \<or> c = CHR ''-'') (drop 9 run_id))
      else None)"

subsection \<open>Dates: \<^verbatim>\<open>datetime.strptime\<close> and \<^verbatim>\<open>strftime\<close>\<close>

text \<open>
  \<^verbatim>\<open>datetime.strptime\<close> belongs to Python's standard library. It is called on the first
  group of a match only, a string of six or of eight ASCII digits, with the format
  \<^verbatim>\<open>%y%m%d\<close> or \<^verbatim>\<open>%Y%m%d\<close>. On such a string the directives read two (or four) digits
  of year, two of month and two of day; the call raises ValueError unless the month is
  01 to 12 and the day exists in that month of that year. \<^verbatim>\<open>%y\<close> follows the POSIX
  convention: 00 to 68 are the years 2000 to 2068, and 69 to 99 the years 1969 to 1999.
  \<^verbatim>\<open>%Y\<close> needs a year of at least 1.
\<close>

datatype date_format = Fmt_y_m_d | Fmt_Y_m_d

definition is_leap :: "nat \<Rightarrow> bool" where
  "is_leap y \<longleftrightarrow> y mod 4 = 0 \<and> (y mod 100 \<noteq> 0 \<or> y mod 400 = 0)"

definition days_in_month :: "nat \<Rightarrow> nat \<Rightarrow> nat" where
  "days_in_month y m =
     (if m = 2 then (if is_leap y then 29 else 28)
      else if m = 4 \<or> m = 6 \<or> m = 9 \<or> m = 11 then 30 else 31)"

definition calendar_valid :: "nat \<Rightarrow> nat \<Rightarrow> nat \<Rightarrow> bool" where
  \<comment> \<open>the date exists: what the constructor of \<^verbatim>\<open>datetime.date\<close> checks\<close>
  "calendar_valid y m d \<longleftrightarrow> 1 \<le> y \<and> 1 \<le> m \<and> m \<le> 12 \<and> 1 \<le> d \<and> d \<le> days_in_month y m"

definition year_of_yy :: "nat \<Rightarrow> nat" where
  "year_of_yy yy = (if yy \<le> 68 then 2000 + yy else 1900 + yy)"

definition strptime :: "string \<Rightarrow> date_format \<Rightarrow> error + (nat \<times> nat \<times> nat)" where
  "strptime s fmt =
     (let k = (case fmt of Fmt_y_m_d \<Rightarrow> 2 | Fmt_Y_m_d \<Rightarrow> 4);
          y = (case fmt of Fmt_y_m_d \<Rightarrow> year_of_yy (int_of_digits (take k s))
                         | Fmt_Y_m_d \<Rightarrow> int_of_digits (take k s));
          m = int_of_digits (take 2 (drop k s));
          d = int_of_digits (drop (k + 2) s)
      in if calendar_valid y m d
         then Inr (y, m, d) else Inl (Strptime_error s))"

definition pad2 :: "nat \<Rightarrow> string" where
  "pad2 n = [digit_char (n div 10 mod 10), digit_char (n mod 10)]"

definition pad4 :: "nat \<Rightarrow> string" where
  "pad4 n = [digit_char (n div 1000 mod 10), digit_char (n div 100 mod 10),
             digit_char (n div 10 mod 10), digit_char (n mod 10)]"

definition strftime :: "nat \<times> nat \<times> nat \<Rightarrow> string" where
  \<comment> \<open>\<^verbatim>\<open>.strftime('%Y-%m-%d')\<close>; the year is written with four digits (for a year below
      1000 the C library decides whether \<^verbatim>\<open>%Y\<close> pads, and the model pads)\<close>
  "strftime dt = (case dt of (y, m, d) \<Rightarrow> pad4 y @ ''-'' @ pad2 m @ ''-'' @ pad2 d)"

subsection \<open>\<^verbatim>\<open>parse_illumina_run_id\<close>\<close>

definition parse_illumina_run_id :: "string \<Rightarrow> error + (string \<times> string)" where
  "parse_illumina_run_id run_id =
     (if matches6 run_id = None \<and> matches8 run_id = None
      then Inl (Unrecognized_run_id run_id)
      else
        let (matches, fmt) =
              (if matches6 run_id = None then (the (matches8 run_id), Fmt_Y_m_d)
               else (the (matches6 run_id), Fmt_y_m_d))
        in \<comment> \<open>both patterns have two groups, so \<^verbatim>\<open>len(matches.groups()) != 2\<close> is false\<close>
           (case strptime (fst matches) fmt of
              Inl e \<Rightarrow> Inl e
            | Inr dt \<Rightarrow> Inr (strftime dt, snd matches)))"

section \<open>Sample names for Qiita\<close>

definition qiita_allowed :: "char \<Rightarrow> bool" where
  \<comment> \<open>the complement of the class \<^verbatim>\<open>[^0-9a-zA-Z\-\.]\<close>\<close>
  "qiita_allowed c \<longleftrightarrow>
     is_ascii_digit c \<or> is_ascii_letter c \<or> c = CHR ''-'' \<or> c = CHR ''.''"

text \<open>
  \<^verbatim>\<open>re.sub(cls + '+', repl, s)\<close> for a negated character class: scanning from the left,
  each character of the class \<open>keep\<close> is copied, and a character outside it starts a
  match that the greedy \<^verbatim>\<open>+\<close> extends over all the following characters outside
  \<open>keep\<close>; the whole match is replaced by \<open>repl\<close>.
\<close>

function re_sub_not_in :: "(char \<Rightarrow> bool) \<Rightarrow> string \<Rightarrow> string \<Rightarrow> string" where
  "re_sub_not_in keep repl [] = []"
| "re_sub_not_in keep repl (c # cs) =
     (if keep c then c # re_sub_not_in keep repl cs
      else repl @ re_sub_not_in keep repl (dropWhile (\<lambda>x. \<not> keep x) cs))"
  by pat_completeness auto
termination
  by (relation "measure (\<lambda>(keep, repl, s). length s)")
     (auto simp: length_dropWhile_le less_Suc_eq_le)

definition qiita_scrub_name :: "string \<Rightarrow> string" where
  \<comment> \<open>\<^verbatim>\<open>re.sub(r'[^0-9a-zA-Z\-\.]+', '.', name)\<close>\<close>
  "qiita_scrub_name name = re_sub_not_in qiita_allowed ''.'' name"

text \<open>
  The specification describes the result as the input with each maximal run of
  characters outside the class replaced by one full stop. \<open>runs\<close> cuts a list into its
  maximal blocks of elements on which a predicate is constant, and
  \<open>replace_maximal_runs\<close> follows the specification's words on those blocks.
\<close>

function runs :: "('a \<Rightarrow> bool) \<Rightarrow> 'a list \<Rightarrow> 'a list list" where
  "runs P [] = []"
| "runs P (x # xs) =
     (x # takeWhile (\<lambda>y. P y = P x) xs) # runs P (dropWhile (\<lambda>y. P y = P x) xs)"
  by pat_completeness auto
termination
  by (relation "measure (\<lambda>(P, s). length s)")
     (auto simp: length_dropWhile_le less_Suc_eq_le)

definition replace_maximal_runs :: "(char \<Rightarrow> bool) \<Rightarrow> string \<Rightarrow> string \<Rightarrow> string" where
  "replace_maximal_runs keep repl s =
     concat (map (\<lambda>r. if keep (hd r) then r else repl) (runs keep s))"

section \<open>Results with warnings\<close>

text \<open>
  \<^verbatim>\<open>warnings.warn\<close> does not stop the call; the warnings issued are kept in order next to
  the outcome:
  \<^item> \<open>Too_many_matches n sample_id lane files\<close>: 'There are n matches for sample "..." in
    lane ... Only two matches are allowed (forward and reverse): ...';
  \<^item> \<open>Too_many_matches_mf n files\<close>: 'n possible matches found for determining
    run-prefix. Only two matches should be found (forward and reverse): ...';
  \<^item> \<open>No_well_description\<close>: "'well_description' is not present in sample-sheet. ...";
  \<^item> \<open>Using_description\<close>: "Using 'description' instead of 'well_description' because
    that column isn't present";
  \<^item> \<open>No_data project lane\<close>: 'Project ... and Lane ... have no data';
  \<^item> \<open>Invalid_sample_names names\<close>: 'The following sample names have invalid
    characters: ...'.
\<close>

datatype warning =
    Too_many_matches nat string string "string list"
  | Too_many_matches_mf nat "string list"
  | No_well_description
  | Using_description
  | No_data string string
  | Invalid_sample_names "string list"

type_synonym 'a result = "warning list \<times> (error + 'a)"

definition ok :: "'a \<Rightarrow> 'a result" where
  "ok x = ([], Inr x)"

definition throw :: "error \<Rightarrow> 'a result" where
  "throw e = ([], Inl e)"

definition warn :: "warning \<Rightarrow> unit result" where
  "warn w = ([w], Inr ())"

definition lift :: "error + 'a \<Rightarrow> 'a result" where
  "lift r = ([], r)"

definition and_then :: "'a result \<Rightarrow> ('a \<Rightarrow> 'b result) \<Rightarrow> 'b result" where
  \<comment> \<open>sequencing: an exception ends the computation, the warnings so far stay issued\<close>
  "and_then m f =
     (case m of
        (ws, Inl e) \<Rightarrow> (ws, Inl e)
      | (ws, Inr x) \<Rightarrow> (case f x of (ws', r) \<Rightarrow> (ws @ ws', r)))"

definition bind_err :: "error + 'a \<Rightarrow> ('a \<Rightarrow> error + 'b) \<Rightarrow> error + 'b" where
  "bind_err m f = (case m of Inl e \<Rightarrow> Inl e | Inr x \<Rightarrow> f x)"

fun for_each :: "('a \<Rightarrow> 's \<Rightarrow> 's result) \<Rightarrow> 'a list \<Rightarrow> 's \<Rightarrow> 's result" where
  \<comment> \<open>a \<^verbatim>\<open>for\<close> loop whose body updates the loop's variables \<open>s\<close>\<close>
  "for_each body [] s = ok s"
| "for_each body (x # xs) s = and_then (body x s) (for_each body xs)"

section \<open>Paths and the file system\<close>

subsection \<open>\<^verbatim>\<open>os.path\<close> (POSIX)\<close>

definition path_join :: "string \<Rightarrow> string \<Rightarrow> string" where
  \<comment> \<open>\<^verbatim>\<open>os.path.join(a, b)\<close>; with more arguments the calls nest to the left\<close>
  "path_join a b =
     (if prefix ''/'' b then b
      else if a = [] \<or> last a = CHR ''/'' then a @ b
      else a @ ''/'' @ b)"

definition basename :: "string \<Rightarrow> string" where
  \<comment> \<open>\<^verbatim>\<open>os.path.basename(p)\<close>, also the second component of \<^verbatim>\<open>os.path.split(p)\<close>:
      what follows the last slash\<close>
  "basename p = rev (takeWhile (\<lambda>c. c \<noteq> CHR ''/'') (rev p))"

fun split_on :: "char \<Rightarrow> string \<Rightarrow> string list" where
  \<comment> \<open>\<^verbatim>\<open>s.split(c)\<close> for a separator of one character\<close>
  "split_on c [] = [[]]"
| "split_on c (x # xs) =
     (if x = c then [] # split_on c xs
      else (case split_on c xs of w # ws \<Rightarrow> (x # w) # ws | [] \<Rightarrow> [[x]]))"

fun join_with :: "string \<Rightarrow> string list \<Rightarrow> string" where
  \<comment> \<open>\<^verbatim>\<open>sep.join(parts)\<close>\<close>
  "join_with sep [] = []"
| "join_with sep [p] = p"
| "join_with sep (p # q # ps) = p @ sep @ join_with sep (q # ps)"

definition normpath_step :: "nat \<Rightarrow> string list \<Rightarrow> string \<Rightarrow> string list" where
  \<comment> \<open>the body of the loop over the components in \<^verbatim>\<open>posixpath.normpath\<close>\<close>
  "normpath_step initial_slashes new_comps part =
     (if part = [] \<or> part = ''.'' then new_comps
      else if part \<noteq> ''..'' \<or> (initial_slashes = 0 \<and> new_comps = []) \<or>
              (new_comps \<noteq> [] \<and> last new_comps = ''..'')
      then new_comps @ [part]
      else if new_comps \<noteq> [] then butlast new_comps
      else new_comps)"

definition normpath :: "string \<Rightarrow> string" where
  \<comment> \<open>\<^verbatim>\<open>os.path.normpath(path)\<close>\<close>
  "normpath path =
     (if path = [] then ''.''
      else
        let initial_slashes =
              (if prefix ''/'' path
               then (if prefix ''//'' path \<and> \<not> prefix ''///'' path then 2 else 1)
               else (0::nat));
            comps = foldl (normpath_step initial_slashes) [] (split_on CHR ''/'' path);
            p = replicate initial_slashes CHR ''/'' @ join_with ''/'' comps
        in if p = [] then ''.'' else p)"

subsection \<open>The file system\<close>

text \<open>
  The file system is a parameter of the model: what \<^verbatim>\<open>os.path.exists\<close>,
  \<^verbatim>\<open>os.listdir\<close>, \<^verbatim>\<open>os.path.isdir\<close> and \<^verbatim>\<open>glob\<close> answer for a path or a pattern, and
  for a file the number of bytes it decompresses to, \<open>None\<close> when reading the gzip stream
  raises an exception. The calls themselves are taken to succeed: a path that exists and
  is listed is a directory, and a path that \<^verbatim>\<open>glob\<close> returns can be opened.
\<close>

record filesystem =
  path_exists :: "string \<Rightarrow> bool"
  listdir :: "string \<Rightarrow> string list"
  isdir :: "string \<Rightarrow> bool"
  glob :: "string \<Rightarrow> string list"
  gunzip_size :: "string \<Rightarrow> nat option"

definition is_nonempty_gz_file :: "filesystem \<Rightarrow> string \<Rightarrow> bool" where
  \<comment> \<open>\<^verbatim>\<open>f.read(1)\<close> returns at most one byte; any exception of the read gives False\<close>
  "is_nonempty_gz_file fs name =
     (case gunzip_size fs name of
        Some n \<Rightarrow> 0 < min 1 n
      | None \<Rightarrow> False)"

definition file_list :: "filesystem \<Rightarrow> string \<Rightarrow> string list" where
  \<comment> \<open>\<^verbatim>\<open>_file_list\<close>\<close>
  "file_list fs path = filter (\<lambda>f. \<not> isdir fs (path_join path f)) (listdir fs path)"

definition exists_and_has_files :: "filesystem \<Rightarrow> string \<Rightarrow> bool" where
  \<comment> \<open>\<^verbatim>\<open>_exists_and_has_files\<close>; the length is used as a truth value\<close>
  "exists_and_has_files fs path \<longleftrightarrow> path_exists fs path \<and> length (file_list fs path) \<noteq> 0"

section \<open>The run prefix of a pair of files\<close>

definition py_slice_to :: "'a list \<Rightarrow> int \<Rightarrow> 'a list" where
  \<comment> \<open>\<^verbatim>\<open>s[:i]\<close>: a negative \<open>i\<close> counts from the end\<close>
  "py_slice_to s i = (if 0 \<le> i then take (nat i) s else take (nat (int (length s) + i)) s)"

fun first_diff :: "'a list \<Rightarrow> 'a list \<Rightarrow> nat \<Rightarrow> nat option" where
  \<comment> \<open>the first index from \<open>i\<close> on at which the two lists differ\<close>
  "first_diff (x # xs) (y # ys) i = (if x \<noteq> y then Some i else first_diff xs ys (Suc i))"
| "first_diff _ _ i = None"

definition loop_index :: "string \<Rightarrow> string \<Rightarrow> int option" where
  \<comment> \<open>the value of \<^verbatim>\<open>i\<close> after
      \<^verbatim>\<open>for i in range(len(f)): if f[i] != r[i]: i -= 2; break\<close>
      for names of equal length: two less than the first differing index, or the last
      index when the loop ends without \<^verbatim>\<open>break\<close>; \<open>None\<close> when the loop body never
      runs and \<^verbatim>\<open>i\<close> stays unbound\<close>
  "loop_index f r =
     (case first_diff f r 0 of
        Some d \<Rightarrow> Some (int d - 2)
      | None \<Rightarrow> if f = [] then None else Some (int (length f) - 1))"

definition prefix_of_names :: "string \<Rightarrow> string \<Rightarrow> error + string" where
  \<comment> \<open>the length check, the loop and \<^verbatim>\<open>return f[:i]\<close>\<close>
  "prefix_of_names f r =
     (if length f \<noteq> length r then Inl (Mismatched_filenames f r)
      else (case loop_index f r of
              None \<Rightarrow> Inl (UnboundLocalError ''i'')
            | Some i \<Rightarrow> Inr (py_slice_to f i)))"

definition prefix_of_results ::
  "filesystem \<Rightarrow> string list \<Rightarrow> warning \<Rightarrow> string option result" where
  \<comment> \<open>the lines from \<^verbatim>\<open>if len(results) == 2:\<close> to the final \<^verbatim>\<open>return None\<close>, which
      \<^verbatim>\<open>get_run_prefix\<close> and \<^verbatim>\<open>get_run_prefix_mf\<close> repeat word for word but for the text
      of the warning\<close>
  "prefix_of_results fs results too_many =
     (if length results = 2 then
        (let forward = sort results ! 0; reverse = sort results ! 1 in
         if is_nonempty_gz_file fs forward \<and> is_nonempty_gz_file fs reverse
         then lift (bind_err (prefix_of_names (basename forward) (basename reverse))
                      (\<lambda>p. Inr (Some p)))
         else ok None)
      else if 2 < length results then and_then (warn too_many) (\<lambda>_. ok None)
      else ok None)"

definition choose_path :: "filesystem \<Rightarrow> string \<Rightarrow> string \<Rightarrow> string \<Rightarrow> error + string" where
  \<comment> \<open>the directory \<^verbatim>\<open>get_run_prefix\<close> searches, by pipeline\<close>
  "choose_path fs run_path project pipeline =
     (let base = path_join run_path project in
      if pipeline = ''atropos-and-bowtie2'' then
        (let qc = path_join base ''atropos_qc'';
             hf = path_join base ''filtered_sequences''
         in if exists_and_has_files fs qc
            then (if exists_and_has_files fs hf then Inr hf else Inr qc)
            else Inr base)
      else if pipeline = ''fastp-and-minimap2'' then
        (let qc = path_join base ''trimmed_sequences'';
             hf = path_join base ''filtered_sequences''
         in if exists_and_has_files fs qc \<and> exists_and_has_files fs hf then Inr hf
            else if exists_and_has_files fs qc then Inr qc
            else if exists_and_has_files fs hf then Inr hf
            else Inr base)
      else Inl (Invalid_pipeline pipeline))"

definition search_me :: "string \<Rightarrow> string \<Rightarrow> string" where
  \<comment> \<open>\<^verbatim>\<open>'%s_S*_L*%s_R*.fastq.gz' % (sample_id, lane)\<close>\<close>
  "search_me sample_id lane = sample_id @ ''_S*_L*'' @ lane @ ''_R*.fastq.gz''"

definition get_run_prefix ::
  "filesystem \<Rightarrow> string \<Rightarrow> string \<Rightarrow> string \<Rightarrow> string \<Rightarrow> string \<Rightarrow> string option result" where
  "get_run_prefix fs run_path project sample_id lane pipeline =
     and_then (lift (choose_path fs run_path project pipeline)) (\<lambda>path.
       let results = glob fs (path_join path (search_me sample_id lane))
       in prefix_of_results fs results
            (Too_many_matches (length results) sample_id lane (sort results)))"

definition get_run_prefix_mf :: "filesystem \<Rightarrow> string \<Rightarrow> string \<Rightarrow> string option result" where
  "get_run_prefix_mf fs run_path project =
     (let search_path =
            path_join (path_join (path_join run_path project) ''amplicon'')
              ''*_SMPL1_S*R?_*.fastq.gz'';
          results = glob fs search_path
      in prefix_of_results fs results (Too_many_matches_mf (length results) (sort results)))"

text \<open>
  The specification's words for the prefix of a pair: the longest common leading
  substring of the two names, trimmed by two characters.
\<close>

definition trimmed_common_prefix :: "string \<Rightarrow> string \<Rightarrow> string" where
  "trimmed_common_prefix f r =
     (let p = longest_common_prefix f r in take (length p - 2) p)"

section \<open>Instruments and projects\<close>

record instrument =
  machine_prefix :: string
  vocab :: string
  machine_type :: string
  run_center :: string

definition INSTRUMENT_LOOKUP :: "(string \<times> instrument) list" where
  \<comment> \<open>the rows of the transposed table, by instrument code, in the order written\<close>
  "INSTRUMENT_LOOKUP =
     [(''FS10001773'', \<lparr>machine_prefix = ''FS'', vocab = ''Illumina iSeq'',
                         machine_type = ''iSeq'', run_center = ''KLM''\<rparr>),
      (''A00953'', \<lparr>machine_prefix = ''A'', vocab = ''Illumina NovaSeq 6000'',
                     machine_type = ''NovaSeq'', run_center = ''IGM''\<rparr>),
      (''A00169'', \<lparr>machine_prefix = ''A'', vocab = ''Illumina NovaSeq 6000'',
                     machine_type = ''NovaSeq'', run_center = ''LJI''\<rparr>),
      (''M05314'', \<lparr>machine_prefix = ''M'', vocab = ''Illumina MiSeq'',
                     machine_type = ''MiSeq'', run_center = ''KLM''\<rparr>),
      (''K00180'', \<lparr>machine_prefix = ''K'', vocab = ''Illumina HiSeq 4000'',
                     machine_type = ''HiSeq'', run_center = ''IGM''\<rparr>),
      (''D00611'', \<lparr>machine_prefix = ''D'', vocab = ''Illumina HiSeq 2500'',
                     machine_type = ''HiSeq/RR'', run_center = ''IGM''\<rparr>),
      (''MN01225'', \<lparr>machine_prefix = ''MN'', vocab = ''Illumina MiniSeq'',
                      machine_type = ''MiniSeq'', run_center = ''CMI''\<rparr>)]"

definition get_machine_code :: "string \<Rightarrow> error + string" where
  \<comment> \<open>\<^verbatim>\<open>^([a-zA-Z]{1,2})\<close>: one or two leading letters, as many as there are\<close>
  "get_machine_code instrument_model =
     (let code = takeWhile is_ascii_letter (take 2 instrument_model)
      in if code = [] then Inl (Malformed_instrument_model instrument_model) else Inr code)"

definition get_model_and_center :: "string \<Rightarrow> error + (string \<times> string)" where
  \<comment> \<open>The \<^verbatim>\<open>ValueError\<close> for an unknown prefix is built but not raised; the index \<^verbatim>\<open>[0]\<close>
      into the models of that prefix then raises \<^verbatim>\<open>IndexError\<close> when there is none.\<close>
  "get_model_and_center instrument_code =
     (let instrument_model = (case split_on CHR ''_'' instrument_code of p # _ \<Rightarrow> p | [] \<Rightarrow> [])
      in case map_of INSTRUMENT_LOOKUP instrument_model of
           Some i \<Rightarrow> Inr (vocab i, run_center i)
         | None \<Rightarrow>
             bind_err (get_machine_code instrument_model) (\<lambda>instrument_prefix.
               case filter (\<lambda>(code, i). machine_prefix i = instrument_prefix) INSTRUMENT_LOOKUP of
                 [] \<Rightarrow> Inl IndexError
               | (code, i) # _ \<Rightarrow> Inr (vocab i, ''UCSDMI'')))"

definition remove_qiita_id :: "string \<Rightarrow> string" where
  \<comment> \<open>\<^verbatim>\<open>re.search(r'(.+)_(\d+)$', project_name)\<close>: \<^verbatim>\<open>$\<close> also matches before a final
      newline; the digits are the last run of digits, preceded by an underscore; group 1
      starts as far left as it can, and \<^verbatim>\<open>.\<close> matches no newline\<close>
  "remove_qiita_id project_name =
     (let s = (if project_name \<noteq> [] \<and> last project_name = CHR 0x0A
               then butlast project_name else project_name);
          digits = takeWhile is_ascii_digit (rev s);
          before = drop (length digits) (rev s)
      in case before of
           c # pre \<Rightarrow>
             (let group1 = rev (takeWhile (\<lambda>x. x \<noteq> CHR 0x0A) pre)
              in if digits \<noteq> [] \<and> c = CHR ''_'' \<and> group1 \<noteq> [] then group1 else project_name)
         | [] \<Rightarrow> project_name)"

function py_replace :: "string \<Rightarrow> string \<Rightarrow> string \<Rightarrow> string" where
  \<comment> \<open>\<^verbatim>\<open>s.replace(old, new)\<close>: the occurrences of \<open>old\<close> from the left, without overlap\<close>
  "py_replace old new [] = (if old = [] then new else [])"
| "py_replace old new (c # cs) =
     (if old = [] then new @ concat (map (\<lambda>x. x # new) (c # cs))
      else if prefix old (c # cs) then new @ py_replace old new (drop (length old) (c # cs))
      else c # py_replace old new cs)"
  by pat_completeness auto
termination
  by (relation "measure (\<lambda>(old, new, s). length s)") auto

fun before_first :: "string \<Rightarrow> string \<Rightarrow> string" where
  \<comment> \<open>\<^verbatim>\<open>s.split(sep)[0]\<close> for a separator that is not empty\<close>
  "before_first sep [] = []"
| "before_first sep (c # cs) = (if prefix sep (c # cs) then [] else c # before_first sep cs)"

definition extract_run_date_from_run_id :: "string \<Rightarrow> string" where
  "extract_run_date_from_run_id run_id =
     (let tmp = before_first ''_'' run_id;
          year = take 2 tmp;
          month = take 2 (drop 2 tmp);
          date = take 2 (drop 4 tmp)
      in ''20'' @ year @ ''/'' @ month @ ''/'' @ date)"

section \<open>Tables\<close>

text \<open>
  A \<^verbatim>\<open>pandas.DataFrame\<close> is its list of column names and its rows in order, each with its
  index label; a row (a \<^verbatim>\<open>Series\<close>, or the \<^verbatim>\<open>dict\<close> a row is built from) is an association
  list from column name to value. All values are strings. The sample sheet is indexed by
  sample identifier, so its labels are strings. A frame with pandas' default index, the
  positions of the rows, has labels of type \<open>unit\<close>: the mapping file as it is read from a
  file, and the preparations the assemblers build.
\<close>

type_synonym row = "(string \<times> string) list"

record 'i frame =
  columns :: "string list"
  rows :: "('i \<times> row) list"

type_synonym table = "unit frame"

definition cell :: "row \<Rightarrow> string \<Rightarrow> string" where
  \<comment> \<open>the value of a column that the row has\<close>
  "cell r c = (case map_of r c of Some v \<Rightarrow> v | None \<Rightarrow> [])"

definition getattr :: "row \<Rightarrow> string \<Rightarrow> error + string" where
  \<comment> \<open>\<^verbatim>\<open>sample.c\<close>\<close>
  "getattr r c = (case map_of r c of Some v \<Rightarrow> Inr v | None \<Rightarrow> Inl (AttributeError c))"

definition getitem :: "row \<Rightarrow> string \<Rightarrow> error + string" where
  \<comment> \<open>\<^verbatim>\<open>sample['c']\<close>\<close>
  "getitem r c = (case map_of r c of Some v \<Rightarrow> Inr v | None \<Rightarrow> Inl (KeyError c))"

definition column_values :: "'i frame \<Rightarrow> string \<Rightarrow> string list" where
  \<comment> \<open>the values of \<^verbatim>\<open>frame[c]\<close>, for a column there is\<close>
  "column_values f c = map (\<lambda>(i, r). cell r c) (rows f)"

definition assign_column :: "string \<Rightarrow> string list \<Rightarrow> 'i frame \<Rightarrow> 'i frame" where
  \<comment> \<open>\<^verbatim>\<open>frame[c] = values\<close>, one value for each row: an existing column keeps its place, a
      new one comes last\<close>
  "assign_column c vs f =
     f\<lparr>columns := (if c \<in> set (columns f) then columns f else columns f @ [c]),
       rows := map (\<lambda>((i, r), v). (i, AList.update c v r)) (zip (rows f) vs)\<rparr>"

definition assign_scalar :: "string \<Rightarrow> string \<Rightarrow> 'i frame \<Rightarrow> 'i frame" where
  \<comment> \<open>\<^verbatim>\<open>frame[c] = v\<close> for one string\<close>
  "assign_scalar c v f = assign_column c (replicate (length (rows f)) v) f"

definition drop_column :: "string \<Rightarrow> 'i frame \<Rightarrow> 'i frame" where
  \<comment> \<open>\<^verbatim>\<open>frame.drop(c, axis=1, inplace=True)\<close>\<close>
  "drop_column c f =
     f\<lparr>columns := removeAll c (columns f),
       rows := map (\<lambda>(i, r). (i, AList.delete c r)) (rows f)\<rparr>"

definition groupby :: "string \<Rightarrow> ('i \<times> row) list \<Rightarrow> (string \<times> ('i \<times> row) list) list" where
  \<comment> \<open>the groups of \<^verbatim>\<open>frame.groupby(c)\<close> in the order of iteration: the keys sorted, each
      with its rows in their order\<close>
  "groupby c rs =
     map (\<lambda>k. (k, filter (\<lambda>(i, r). cell r c = k) rs))
       (sort (remdups (map (\<lambda>(i, r). cell r c) rs)))"

definition DataFrame :: "string list \<Rightarrow> row list \<Rightarrow> table" where
  \<comment> \<open>\<^verbatim>\<open>pd.DataFrame(columns=cols, data=data)\<close> for a list of dictionaries\<close>
  "DataFrame cols data =
     \<lparr>columns = cols, rows = map (\<lambda>d. ((), map (\<lambda>c. (c, cell d c)) cols)) data\<rparr>"

fun traverse :: "('a \<Rightarrow> error + 'b) \<Rightarrow> 'a list \<Rightarrow> error + 'b list" where
  \<comment> \<open>applying a function that may raise to every element, as \<^verbatim>\<open>Series.apply\<close> does\<close>
  "traverse f [] = Inr []"
| "traverse f (x # xs) =
     bind_err (f x) (\<lambda>y. bind_err (traverse f xs) (\<lambda>ys. Inr (y # ys)))"

fun fill :: "(string \<times> (error + string)) list \<Rightarrow> row \<Rightarrow> error + row" where
  \<comment> \<open>a sequence of assignments \<^verbatim>\<open>row[k] = expression\<close>, in order\<close>
  "fill [] d = Inr d"
| "fill ((k, e) # kes) d = bind_err e (\<lambda>v. fill kes (AList.update k v d))"

section \<open>The transform of the American Gut Project\<close>

definition zfill :: "nat \<Rightarrow> string \<Rightarrow> string" where
  \<comment> \<open>\<^verbatim>\<open>s.zfill(width)\<close>: zeros on the left, after a sign\<close>
  "zfill width s =
     (if width \<le> length s then s
      else (case s of
              c # cs \<Rightarrow>
                if c = CHR ''+'' \<or> c = CHR ''-''
                then c # replicate (width - length s) CHR ''0'' @ cs
                else replicate (width - length s) CHR ''0'' @ s
            | [] \<Rightarrow> replicate width CHR ''0''))"

definition zero_fill :: "string \<Rightarrow> error + string" where
  \<comment> \<open>\<^verbatim>\<open>and\<close> evaluates \<^verbatim>\<open>name[0]\<close> only for a name without 'blank'\<close>
  "zero_fill name =
     (if \<not> sublist ''blank'' (py_lower name) then
        (case name of
           [] \<Rightarrow> Inl IndexError
         | c # _ \<Rightarrow> if py_isdigit c then Inr (zfill 9 name) else Inr name)
      else Inr name)"

definition agp_transform :: "'i frame \<Rightarrow> string \<Rightarrow> error + 'i frame" where
  \<comment> \<open>the frame is changed in place and returned; the result is the frame after the call\<close>
  "agp_transform frame study_id =
     (if study_id = ''10317'' then
        (if ''sample_name'' \<notin> set (columns frame) then Inl (KeyError ''sample_name'')
         else
           bind_err (traverse zero_fill (column_values frame ''sample_name'')) (\<lambda>names.
             Inr (assign_scalar ''experiment_design_description''
                    ''samples of skin, saliva and feces and other samples from the AGP''
                 (assign_scalar ''library_construction_protocol'' ''Knight Lab KHP''
                 (assign_scalar ''center_name'' ''UCSDMI''
                 (assign_column ''sample_name'' names frame))))))
      else Inr frame)"

definition check_invalid_names :: "string list \<Rightarrow> unit result" where
  \<comment> \<open>\<^verbatim>\<open>_check_invalid_names\<close>\<close>
  "check_invalid_names sample_names =
     (let invalid = filter (\<lambda>name. \<not> list_all (\<lambda>c. is_ascii_letter c \<or> is_ascii_digit c \<or>
                                                    c = CHR ''.'') name) sample_names
      in if invalid \<noteq> [] then warn (Invalid_sample_names invalid) else ok ())"

section \<open>Preparations from a sample sheet\<close>

definition REQUIRED_COLUMNS :: "string list" where
  \<comment> \<open>a set in the source; the order of its elements, which Python leaves open, is the
      order written\<close>
  "REQUIRED_COLUMNS =
     [''sample_plate'', ''sample_well'', ''i7_index_id'', ''index'', ''i5_index_id'',
      ''index2'', ''sample_name'']"

definition PREP_COLUMNS :: "string list" where
  "PREP_COLUMNS =
     [''experiment_design_description'', ''well_description'',
      ''library_construction_protocol'', ''platform'', ''run_center'', ''run_date'',
      ''run_prefix'', ''sequencing_meth'', ''center_name'', ''center_project_name'',
      ''instrument_model'', ''runid'', ''lane'', ''sample_project''] @ REQUIRED_COLUMNS"

type_synonym preparations = "((string \<times> string \<times> string) \<times> table) list"

record run =
  \<comment> \<open>what \<^verbatim>\<open>preparations_for_run\<close> derives from the run path before its loops\<close>
  the_run_id :: string
  the_run_date :: string
  the_instrument_model :: string
  the_run_center :: string

definition normalize_description :: "string frame \<Rightarrow> warning list \<times> string frame" where
  \<comment> \<open>the block \<^verbatim>\<open>if 'well_description' not in set(sheet.columns):\<close>, which changes the
      caller's sheet\<close>
  "normalize_description sheet =
     (if ''well_description'' \<notin> set (columns sheet) then
        (if ''description'' \<in> set (columns sheet)
         then ([No_well_description, Using_description],
               drop_column ''description''
                 (assign_column ''well_description'' (column_values sheet ''description'') sheet))
         else ([No_well_description], sheet))
      else ([], sheet))"

definition sheet_row ::
  "run \<Rightarrow> string \<Rightarrow> string \<Rightarrow> string \<Rightarrow> string \<Rightarrow> row \<Rightarrow> error + row" where
  \<comment> \<open>\<^verbatim>\<open>row = {c: '' for c in PREP_COLUMNS}\<close> and the assignments to it\<close>
  "sheet_row rn project project_name lane run_prefix sample =
     fill
       [(''sample_name'', getattr sample ''sample_name''),
        (''experiment_design_description'', getattr sample ''experiment_design_description''),
        (''library_construction_protocol'', getattr sample ''library_construction_protocol''),
        (''platform'', Inr ''Illumina''),
        (''run_center'', Inr (the_run_center rn)),
        (''run_date'', Inr (the_run_date rn)),
        (''run_prefix'', Inr run_prefix),
        (''sequencing_meth'', Inr ''sequencing by synthesis''),
        (''center_name'', Inr ''UCSD''),
        (''center_project_name'', Inr project_name),
        (''instrument_model'', Inr (the_instrument_model rn)),
        (''runid'', Inr (the_run_id rn)),
        (''sample_plate'', getattr sample ''sample_plate''),
        (''sample_well'', getattr sample ''sample_well''),
        (''i7_index_id'', getitem sample ''i7_index_id''),
        (''index'', getitem sample ''index''),
        (''i5_index_id'', getitem sample ''i5_index_id''),
        (''index2'', getitem sample ''index2''),
        (''lane'', Inr lane),
        (''sample_project'', Inr project),
        (''well_description'',
           bind_err (getattr sample ''sample_plate'') (\<lambda>plate.
           bind_err (getattr sample ''sample_name'') (\<lambda>name.
           bind_err (getattr sample ''sample_well'') (\<lambda>well.
             Inr (plate @ ''.'' @ name @ ''.'' @ well)))))]
       (map (\<lambda>c. (c, [])) PREP_COLUMNS)"

definition sample_step ::
  "filesystem \<Rightarrow> string \<Rightarrow> string \<Rightarrow> run \<Rightarrow> string \<Rightarrow> string \<Rightarrow> string \<Rightarrow>
   string \<times> row \<Rightarrow> row list \<Rightarrow> row list result" where
  \<comment> \<open>the body of \<^verbatim>\<open>for sample_id, sample in lane_sheet.iterrows()\<close>, on \<^verbatim>\<open>data\<close>\<close>
  "sample_step fs run_path pipeline rn project project_name lane =
     (\<lambda>(sample_id, sample) data.
        and_then (get_run_prefix fs run_path project sample_id lane pipeline) (\<lambda>run_prefix.
          case run_prefix of
            None \<Rightarrow> ok data
          | Some p \<Rightarrow>
              and_then (lift (sheet_row rn project project_name lane p sample)) (\<lambda>row.
                ok (data @ [row]))))"

definition lane_step ::
  "filesystem \<Rightarrow> string \<Rightarrow> string \<Rightarrow> run \<Rightarrow> string \<Rightarrow> string \<Rightarrow> string \<Rightarrow>
   string \<times> (string \<times> row) list \<Rightarrow> preparations \<Rightarrow> preparations result" where
  \<comment> \<open>the body of \<^verbatim>\<open>for lane, lane_sheet in project_sheet.groupby('lane')\<close>, on
      \<^verbatim>\<open>output\<close>\<close>
  "lane_step fs run_path pipeline rn project project_name qiita_id =
     (\<lambda>(lane, lane_sheet) output.
        and_then (for_each (sample_step fs run_path pipeline rn project project_name lane)
                    lane_sheet []) (\<lambda>data.
        and_then (if data = [] then warn (No_data project lane) else ok ()) (\<lambda>_.
        and_then (lift (agp_transform (DataFrame PREP_COLUMNS data) qiita_id)) (\<lambda>prep.
        and_then (check_invalid_names (column_values prep ''sample_name'')) (\<lambda>_.
          ok (AList.update (the_run_id rn, project, lane) prep output))))))"

definition project_step ::
  "filesystem \<Rightarrow> string \<Rightarrow> string \<Rightarrow> run \<Rightarrow> string list \<Rightarrow>
   string \<times> (string \<times> row) list \<Rightarrow> preparations \<Rightarrow> preparations result" where
  \<comment> \<open>the body of \<^verbatim>\<open>for project, project_sheet in sheet.groupby('sample_project')\<close>;
      \<open>cols\<close> are the columns of the sheet, which \<^verbatim>\<open>groupby('lane')\<close> looks the key up in\<close>
  "project_step fs run_path pipeline rn cols =
     (\<lambda>(project, project_sheet) output.
        let project_name = remove_qiita_id project;
            qiita_id = py_replace (project_name @ ''_'') [] project;
            qiita_id = (if qiita_id = project then ''QIITA-ID'' else qiita_id)
        in if ''lane'' \<notin> set cols then throw (KeyError ''lane'')
           else for_each (lane_step fs run_path pipeline rn project project_name qiita_id)
                  (groupby ''lane'' project_sheet) output)"

definition preparations_for_run ::
  "filesystem \<Rightarrow> string \<Rightarrow> string frame \<Rightarrow> string \<Rightarrow> string frame \<times> preparations result" where
  \<comment> \<open>the first component is the caller's sheet after the call\<close>
  "preparations_for_run fs run_path sheet pipeline =
     (let rid = basename (normpath run_path) in
      case parse_illumina_run_id rid of
        Inl e \<Rightarrow> (sheet, throw e)
      | Inr (rdate, instrument_code) \<Rightarrow>
          (case get_model_and_center instrument_code of
             Inl e \<Rightarrow> (sheet, throw e)
           | Inr (model, center) \<Rightarrow>
               let rn = \<lparr>the_run_id = rid, the_run_date = rdate,
                         the_instrument_model = model, the_run_center = center\<rparr>;
                   not_present = filter (\<lambda>c. c \<notin> set (columns sheet)) REQUIRED_COLUMNS
               in if not_present \<noteq> [] then (sheet, throw (Missing_columns not_present))
                  else
                    (case normalize_description sheet of
                       (ws, sheet') \<Rightarrow>
                         (sheet',
                          and_then (ws, Inr ()) (\<lambda>_.
                            if ''sample_project'' \<notin> set (columns sheet')
                            then throw (KeyError ''sample_project'')
                            else for_each (project_step fs run_path pipeline rn (columns sheet'))
                                   (groupby ''sample_project'' (rows sheet')) [])))))"

section \<open>Preparations from a mapping file\<close>

definition REQUIRED_MF_COLUMNS :: "string list" where
  "REQUIRED_MF_COLUMNS =
     [''sample_name'', ''barcode'', ''primer'', ''primer_plate'', ''well_id'', ''plating'',
      ''extractionkit_lot'', ''extraction_robot'', ''tm1000_8_tool'', ''primer_date'',
      ''mastermix_lot'', ''water_lot'', ''processing_robot'', ''tm300_8_tool'',
      ''tm50_8_tool'', ''sample_plate'', ''project_name'', ''orig_name'',
      ''well_description'', ''experiment_design_description'',
      ''library_construction_protocol'', ''linker'', ''platform'', ''run_center'',
      ''run_date'', ''run_prefix'', ''pcr_primers'', ''sequencing_meth'', ''target_gene'',
      ''target_subfragment'', ''center_name'', ''center_project_name'',
      ''instrument_model'', ''runid'']"

definition PREP_MF_COLUMNS :: "string list" where
  "PREP_MF_COLUMNS =
     [''sample_name'', ''barcode'', ''center_name'', ''center_project_name'',
      ''experiment_design_description'', ''instrument_model'', ''lane'',
      ''library_construction_protocol'', ''platform'', ''run_center'', ''run_date'',
      ''run_prefix'', ''runid'', ''sample_plate'', ''sequencing_meth'', ''linker'', ''primer'',
      ''primer_plate'', ''well_id'', ''plating'', ''extractionkit_lot'', ''extraction_robot'',
      ''tm1000_8_tool'', ''primer_date'', ''mastermix_lot'', ''water_lot'',
      ''processing_robot'', ''tm300_8_tool'', ''tm50_8_tool'', ''project_name'',
      ''orig_name'', ''well_description'', ''pcr_primers'', ''target_gene'',
      ''target_subfragment'']"

definition lower_columns :: "'i frame \<Rightarrow> 'i frame" where
  \<comment> \<open>\<^verbatim>\<open>mapping_file.columns = mapping_file.columns.str.lower()\<close>\<close>
  "lower_columns f =
     f\<lparr>columns := map py_lower (columns f),
       rows := map (\<lambda>(i, r). (i, map (\<lambda>(k, v). (py_lower k, v)) r)) (rows f)\<rparr>"

definition bcl_allowed :: "char \<Rightarrow> bool" where
  \<comment> \<open>the complement of the class \<^verbatim>\<open>[^0-9a-zA-Z\-\_]\<close>\<close>
  "bcl_allowed c \<longleftrightarrow>
     is_ascii_digit c \<or> is_ascii_letter c \<or> c = CHR ''-'' \<or> c = CHR ''_''"

definition sample_ids :: "table \<Rightarrow> error + string list" where
  \<comment> \<open>\<^verbatim>\<open>mapping_file.apply(lambda x: re.sub(..., '_', x['sample_name']), axis=1)\<close> for a
      frame that has rows\<close>
  "sample_ids f =
     traverse (\<lambda>(i, r). bind_err (getitem r ''sample_name'')
                          (\<lambda>name. Inr (re_sub_not_in bcl_allowed ''_'' name))) (rows f)"

definition add_sample_id :: "table \<Rightarrow> table \<times> (error + unit)" where
  \<comment> \<open>\<^verbatim>\<open>mapping_file['Sample_ID'] = mapping_file.apply(..., axis=1)\<close>. On a frame without
      rows \<^verbatim>\<open>apply\<close> does not call the function to any effect and returns a copy of the
      frame; assigning that to one column raises unless the copy has one column.\<close>
  "add_sample_id f =
     (if rows f = [] then
        (if length (columns f) = 1 then (assign_column ''Sample_ID'' [] f, Inr ())
         else (f, Inl Frame_assignment_error))
      else (case sample_ids f of
              Inl e \<Rightarrow> (f, Inl e)
            | Inr ids \<Rightarrow> (assign_column ''Sample_ID'' ids f, Inr ())))"

definition set_index :: "string \<Rightarrow> ('i \<times> row) list \<Rightarrow> (string \<times> row) list" where
  \<comment> \<open>\<^verbatim>\<open>lane_sheet.set_index(c)\<close>: the column becomes the index\<close>
  "set_index c rs = map (\<lambda>(i, r). (cell r c, AList.delete c r)) rs"

definition MF_COPIED :: "string list" where
  \<comment> \<open>the fields copied from the sample, in the order of the assignments\<close>
  "MF_COPIED =
     [''sample_plate'', ''barcode'', ''linker'', ''primer'', ''primer_plate'', ''well_id'',
      ''plating'', ''extractionkit_lot'', ''extraction_robot'', ''tm1000_8_tool'',
      ''primer_date'', ''mastermix_lot'', ''water_lot'', ''processing_robot'',
      ''tm300_8_tool'', ''tm50_8_tool'', ''project_name'', ''orig_name'',
      ''well_description'', ''pcr_primers'', ''target_gene'', ''target_subfragment'']"

definition mf_row :: "string \<Rightarrow> string \<Rightarrow> string \<Rightarrow> string \<Rightarrow> row \<Rightarrow> error + row" where
  \<comment> \<open>\<^verbatim>\<open>row = {c: '' for c in PREP_MF_COLUMNS}\<close> and the assignments to it; \<^verbatim>\<open>lane\<close> is
      assigned between \<^verbatim>\<open>sample_plate\<close> and \<^verbatim>\<open>barcode\<close>, which changes nothing\<close>
  "mf_row rid run_prefix lane sample_name sample =
     fill
       ([(''sample_name'', Inr sample_name),
         (''experiment_design_description'', getattr sample ''experiment_design_description''),
         (''library_construction_protocol'', getattr sample ''library_construction_protocol''),
         (''platform'', getattr sample ''platform''),
         (''run_center'', getattr sample ''run_center''),
         (''run_date'', Inr (extract_run_date_from_run_id rid)),
         (''run_prefix'', Inr run_prefix),
         (''sequencing_meth'', getattr sample ''sequencing_meth''),
         (''center_name'', getattr sample ''center_name''),
         (''center_project_name'', getattr sample ''center_project_name''),
         (''instrument_model'', getattr sample ''instrument_model''),
         (''runid'', Inr rid),
         (''lane'', Inr lane)] @
        map (\<lambda>c. (c, getattr sample c)) MF_COPIED)
       (map (\<lambda>c. (c, [])) PREP_MF_COLUMNS)"

definition mf_sample_step ::
  "string \<Rightarrow> string \<Rightarrow> string \<Rightarrow> string \<times> row \<Rightarrow> row list \<Rightarrow> row list result" where
  "mf_sample_step rid run_prefix lane =
     (\<lambda>(sample_name, sample) data.
        and_then (lift (mf_row rid run_prefix lane sample_name sample)) (\<lambda>row.
          ok (data @ [row])))"

definition mf_lane_step ::
  "string \<Rightarrow> string \<Rightarrow> string \<Rightarrow> string \<Rightarrow>
   string \<times> (unit \<times> row) list \<Rightarrow> preparations \<Rightarrow> preparations result" where
  "mf_lane_step rid run_prefix project qiita_id =
     (\<lambda>(lane, lane_sheet) output.
        and_then (for_each (mf_sample_step rid run_prefix lane)
                    (set_index ''sample_name'' lane_sheet) []) (\<lambda>data.
        and_then (if data = [] then warn (No_data project lane) else ok ()) (\<lambda>_.
        and_then (lift (agp_transform (DataFrame PREP_MF_COLUMNS data) qiita_id)) (\<lambda>prep.
        and_then (check_invalid_names (column_values prep ''sample_name'')) (\<lambda>_.
          ok (AList.update (rid, project, lane) prep output))))))"

definition mf_project_step ::
  "filesystem \<Rightarrow> string \<Rightarrow> string \<times> (unit \<times> row) list \<Rightarrow> preparations \<Rightarrow> preparations result" where
  \<comment> \<open>the body of \<^verbatim>\<open>for project, project_sheet in mapping_file.groupby('project_name')\<close>.
      \<^verbatim>\<open>run_prefix.split('_SMPL1')\<close> comes before the test \<^verbatim>\<open>run_prefix is None\<close>, and on
      \<^verbatim>\<open>None\<close> it raises \<^verbatim>\<open>AttributeError\<close>.\<close>
  "mf_project_step fs run_path =
     (\<lambda>(project, project_sheet) output.
        let project_name = remove_qiita_id project;
            qiita_id = py_replace (project_name @ ''_'') [] project
        in if qiita_id = project then throw Missing_qiita_id
           else
             and_then (get_run_prefix_mf fs run_path project) (\<lambda>run_prefix.
             and_then (case run_prefix of
                         None \<Rightarrow> throw (AttributeError ''split'')
                       | Some p \<Rightarrow> ok (before_first ''_SMPL1'' p)) (\<lambda>rid.
               case run_prefix of
                 None \<Rightarrow> throw Missing_run_prefix
               | Some p \<Rightarrow>
                   for_each (mf_lane_step rid p project qiita_id)
                     (groupby ''lane'' project_sheet) output)))"

definition preparations_for_run_mapping_file ::
  "filesystem \<Rightarrow> string \<Rightarrow> table \<Rightarrow> table \<times> preparations result" where
  \<comment> \<open>the first component is the caller's mapping file after the call\<close>
  "preparations_for_run_mapping_file fs run_path mapping_file =
     (let mf1 = lower_columns mapping_file;
          mf2 = assign_scalar ''lane'' ''1'' mf1
      in case add_sample_id mf2 of
           (mf3, Inl e) \<Rightarrow> (mf3, throw e)
         | (mf3, Inr _) \<Rightarrow>
             let not_present = filter (\<lambda>c. c \<notin> set (columns mf3)) REQUIRED_MF_COLUMNS
             in if not_present \<noteq> [] then (mf3, throw (Missing_columns not_present))
                else (mf3, for_each (mf_project_step fs run_path)
                             (groupby ''project_name'' (rows mf3)) []))"

section \<open>Notions of the claims\<close>

definition aligned :: "'i frame \<Rightarrow> bool" where
  \<comment> \<open>every row has the columns of its frame, as the rows of a \<^verbatim>\<open>DataFrame\<close> do\<close>
  "aligned f \<longleftrightarrow> list_all (\<lambda>(i, r). map fst r = columns f) (rows f)"




section \<open>Example inputs\<close>

definition fs_of_globs :: "(string \<times> string list) list \<Rightarrow> (string \<times> nat) list \<Rightarrow> filesystem" where
  \<comment> \<open>a file system without subdirectories of the project directories: the answers of
      \<^verbatim>\<open>glob\<close> by pattern, and the decompressed sizes of the files\<close>
  "fs_of_globs globs sizes =
     \<lparr>path_exists = (\<lambda>p. False), listdir = (\<lambda>p. []), isdir = (\<lambda>p. False),
      glob = (\<lambda>p. case map_of globs p of Some fs \<Rightarrow> fs | None \<Rightarrow> []),
      gunzip_size = map_of sizes\<rparr>"

definition fs_run :: filesystem where
  \<comment> \<open>project \<^verbatim>\<open>proj\<close> of run \<^verbatim>\<open>run\<close>: sample A has its two files, sample B only the forward
      file, sample C an empty reverse file, sample D three files\<close>
  "fs_run = fs_of_globs
     [(''run/proj/SampleA_S*_L*1_R*.fastq.gz'',
         [''run/proj/SampleA_S1_L001_R2_001.fastq.gz'', ''run/proj/SampleA_S1_L001_R1_001.fastq.gz'']),
      (''run/proj/SampleB_S*_L*1_R*.fastq.gz'', [''run/proj/SampleB_S2_L001_R1_001.fastq.gz'']),
      (''run/proj/SampleC_S*_L*1_R*.fastq.gz'',
         [''run/proj/SampleC_S3_L001_R1_001.fastq.gz'', ''run/proj/SampleC_S3_L001_R2_001.fastq.gz'']),
      (''run/proj/SampleD_S*_L*1_R*.fastq.gz'',
         [''run/proj/SampleD_S4_L001_R1_001.fastq.gz'', ''run/proj/SampleD_S4_L001_R2_001.fastq.gz'',
          ''run/proj/SampleD_S4_L001_I1_001.fastq.gz'']),
      (''run/proj/SampleE_S*_L*1_R*.fastq.gz'',
         [''run/proj/SampleE_S5_L001_R1_001.fastq.gz'', ''run/proj/SampleE_S5_L001_R2.fastq.gz''])]
     [(''run/proj/SampleA_S1_L001_R1_001.fastq.gz'', 1200),
      (''run/proj/SampleA_S1_L001_R2_001.fastq.gz'', 1180),
      (''run/proj/SampleB_S2_L001_R1_001.fastq.gz'', 900),
      (''run/proj/SampleC_S3_L001_R1_001.fastq.gz'', 700),
      (''run/proj/SampleC_S3_L001_R2_001.fastq.gz'', 0),
      (''run/proj/SampleD_S4_L001_R1_001.fastq.gz'', 10),
      (''run/proj/SampleD_S4_L001_R2_001.fastq.gz'', 10),
      (''run/proj/SampleD_S4_L001_I1_001.fastq.gz'', 10),
      (''run/proj/SampleE_S5_L001_R1_001.fastq.gz'', 10),
      (''run/proj/SampleE_S5_L001_R2.fastq.gz'', 10)]"

definition fs_wild :: filesystem where
  \<comment> \<open>two forward files of different samples, both matched by the pattern of the sample
      identifier \<^verbatim>\<open>*\<close>\<close>
  "fs_wild = fs_of_globs
     [(''run/proj/*_S*_L*1_R*.fastq.gz'',
         [''run/proj/A_S1_L001_R1.fastq.gz'', ''run/proj/B_S1_L001_R1.fastq.gz''])]
     [(''run/proj/A_S1_L001_R1.fastq.gz'', 50), (''run/proj/B_S1_L001_R1.fastq.gz'', 60)]"

definition agp_table :: table where
  \<comment> \<open>a preparation of the American Gut Project: a numeric sample name, a blank and a
      name that is long enough\<close>
  "agp_table =
     \<lparr>columns = [''sample_name'', ''center_name'', ''run_prefix''],
      rows = [((), [(''sample_name'', ''12345''), (''center_name'', ''UCSD''),
                    (''run_prefix'', ''12345_S1_L001'')]),
              ((), [(''sample_name'', ''1.BLANK.3''), (''center_name'', ''UCSD''),
                    (''run_prefix'', ''BLANK_S2_L001'')]),
              ((), [(''sample_name'', ''000123456.a''), (''center_name'', ''UCSD''),
                    (''run_prefix'', ''123456_S3_L001'')])]\<rparr>"

definition agp_table_filled :: table where
  \<comment> \<open>\<open>agp_table\<close> after the transform\<close>
  "agp_table_filled =
     \<lparr>columns = [''sample_name'', ''center_name'', ''run_prefix'',
                 ''library_construction_protocol'', ''experiment_design_description''],
      rows = [((), [(''sample_name'', ''000012345''), (''center_name'', ''UCSDMI''),
                    (''run_prefix'', ''12345_S1_L001''),
                    (''library_construction_protocol'', ''Knight Lab KHP''),
                    (''experiment_design_description'',
                     ''samples of skin, saliva and feces and other samples from the AGP'')]),
              ((), [(''sample_name'', ''1.BLANK.3''), (''center_name'', ''UCSDMI''),
                    (''run_prefix'', ''BLANK_S2_L001''),
                    (''library_construction_protocol'', ''Knight Lab KHP''),
                    (''experiment_design_description'',
                     ''samples of skin, saliva and feces and other samples from the AGP'')]),
              ((), [(''sample_name'', ''000123456.a''), (''center_name'', ''UCSDMI''),
                    (''run_prefix'', ''123456_S3_L001''),
                    (''library_construction_protocol'', ''Knight Lab KHP''),
                    (''experiment_design_description'',
                     ''samples of skin, saliva and feces and other samples from the AGP'')])]\<rparr>"

definition unnamed_table :: table where
  \<comment> \<open>a preparation whose second sample has the empty name\<close>
  "unnamed_table =
     \<lparr>columns = [''sample_name'', ''center_name''],
      rows = [((), [(''sample_name'', ''12345''), (''center_name'', ''UCSD'')]),
              ((), [(''sample_name'', []), (''center_name'', ''UCSD'')])]\<rparr>"

definition sheet_run_path :: string where
  "sheet_run_path = ''/data/200229_M05314_0001_000000000-ABCDE''"

definition sample_row :: "string \<Rightarrow> string \<Rightarrow> string \<Rightarrow> string \<times> row" where
  \<comment> \<open>a row of the example sheet: sample identifier, sample name and well\<close>
  "sample_row sample_id name well =
     (sample_id,
      [(''sample_plate'', ''Plate1''), (''sample_well'', well), (''i7_index_id'', ''iTru7''),
       (''index'', ''ACGTTACC''), (''i5_index_id'', ''iTru5''), (''index2'', ''TTGGTATG''),
       (''sample_name'', name), (''sample_project'', ''proj_550''), (''lane'', ''1''),
       (''experiment_design_description'', ''design''),
       (''library_construction_protocol'', ''protocol''), (''description'', ''a sample'')])"

definition example_sheet :: "string frame" where
  \<comment> \<open>two samples of one project in lane 1, with a column \<^verbatim>\<open>description\<close> and no column
      \<^verbatim>\<open>well_description\<close>\<close>
  "example_sheet =
     \<lparr>columns = [''sample_plate'', ''sample_well'', ''i7_index_id'', ''index'', ''i5_index_id'',
                 ''index2'', ''sample_name'', ''sample_project'', ''lane'',
                 ''experiment_design_description'', ''library_construction_protocol'',
                 ''description''],
      rows = [sample_row ''SampleA'' ''Sample.A'' ''A1'', sample_row ''SampleB'' ''Sample.B'' ''A2'']\<rparr>"


definition fs_sheet :: filesystem where
  \<comment> \<open>the run of \<open>sheet_run_path\<close>: sample A has its two files, sample B none\<close>
  "fs_sheet = fs_of_globs
     [(''/data/200229_M05314_0001_000000000-ABCDE/proj_550/SampleA_S*_L*1_R*.fastq.gz'',
         [''/data/200229_M05314_0001_000000000-ABCDE/proj_550/SampleA_S1_L001_R1_001.fastq.gz'',
          ''/data/200229_M05314_0001_000000000-ABCDE/proj_550/SampleA_S1_L001_R2_001.fastq.gz''])]
     [(''/data/200229_M05314_0001_000000000-ABCDE/proj_550/SampleA_S1_L001_R1_001.fastq.gz'', 1200),
      (''/data/200229_M05314_0001_000000000-ABCDE/proj_550/SampleA_S1_L001_R2_001.fastq.gz'', 1180)]"

definition example_mapping_file :: table where
  \<comment> \<open>a mapping file of one sample with every required column, some in capitals\<close>
  "example_mapping_file =
     \<lparr>columns = map (\<lambda>c. if c = ''sample_name'' then ''Sample_Name'' else c) REQUIRED_MF_COLUMNS,
      rows = [((), map (\<lambda>c. if c = ''sample_name'' then (''Sample_Name'', ''sample 1'')
                               else if c = ''project_name'' then (c, ''proj_550'')
                               else (c, ''x'')) REQUIRED_MF_COLUMNS)]\<rparr>"

definition nameless_mapping_file :: table where
  \<comment> \<open>a mapping file without a column of sample names\<close>
  "nameless_mapping_file =
     \<lparr>columns = [''Barcode''], rows = [((), [(''Barcode'', ''ACGT'')])]\<rparr>"

definition fs_amplicon :: filesystem where
  \<comment> \<open>an amplicon run with the two files of the project\<close>
  "fs_amplicon = fs_of_globs
     [(''/data/run/proj_550/amplicon/*_SMPL1_S*R?_*.fastq.gz'',
         [''/data/run/proj_550/amplicon/200229_M05314_0001_SMPL1_S1_L001_R1_001.fastq.gz'',
          ''/data/run/proj_550/amplicon/200229_M05314_0001_SMPL1_S1_L001_R2_001.fastq.gz''])]
     [(''/data/run/proj_550/amplicon/200229_M05314_0001_SMPL1_S1_L001_R1_001.fastq.gz'', 10),
      (''/data/run/proj_550/amplicon/200229_M05314_0001_SMPL1_S1_L001_R2_001.fastq.gz'', 10)]"

definition fs_empty :: filesystem where
  \<comment> \<open>a run directory in which nothing matches\<close>
  "fs_empty = fs_of_globs [] []"





section \<open>Run identifiers: proofs\<close>

lemma digit_val_lt: "is_ascii_digit c \<Longrightarrow> digit_val c < 10"
  unfolding is_ascii_digit_def digit_val_def less_eq_char_def by simp arith

lemma digit_char_val: "is_ascii_digit c \<Longrightarrow> digit_char (digit_val c) = c"
  by (simp add: is_ascii_digit_def digit_val_def digit_char_def less_eq_char_def)

lemma digit_char_numerals:
  "digit_char 0 = CHR ''0''" "digit_char 1 = CHR ''1''" "digit_char (Suc 0) = CHR ''1''"
  "digit_char 2 = CHR ''2''" "digit_char 9 = CHR ''9''"
  by code_simp+

lemma int_of_digits2: "int_of_digits [a, b] = 10 * digit_val a + digit_val b"
  by (simp add: int_of_digits_def)

lemma pad2_digits:
  assumes "is_ascii_digit a" "is_ascii_digit b"
  shows "pad2 (int_of_digits [a, b]) = [a, b]"
  using digit_val_lt[OF assms(1)] digit_val_lt[OF assms(2)] assms
  by (simp add: pad2_def int_of_digits2 digit_char_val)

lemma int_of_digits2_lt:
  assumes "is_ascii_digit a" "is_ascii_digit b"
  shows "int_of_digits [a, b] < 100"
  using digit_val_lt[OF assms(1)] digit_val_lt[OF assms(2)]
  by (simp add: int_of_digits2)

lemma dec_2000:
  fixes n :: nat assumes "n < 100"
  shows "(2000 + n) div 1000 = 2" "(2000 + n) div 100 mod 10 = 0"
    "(2000 + n) div 10 mod 10 = n div 10 mod 10" "(2000 + n) mod 10 = n mod 10"
proof -
  show "(2000 + n) div 1000 = 2" using assms by simp
  have "(100 * 20 + n) div 100 = 20" using assms by simp
  then show "(2000 + n) div 100 mod 10 = 0" by simp
  have a: "(10 * 200 + n) div 10 = 200 + n div 10" by simp
  have b: "(10 * 20 + n div 10) mod 10 = n div 10 mod 10" by (simp only: mod_mult_self4)
  from a b show "(2000 + n) div 10 mod 10 = n div 10 mod 10" by simp
  have "(10 * 200 + n) mod 10 = n mod 10" by (simp only: mod_mult_self4)
  then show "(2000 + n) mod 10 = n mod 10" by simp
qed

lemma dec_1900:
  fixes n :: nat assumes "n < 100"
  shows "(1900 + n) div 1000 = 1" "(1900 + n) div 100 mod 10 = 9"
    "(1900 + n) div 10 mod 10 = n div 10 mod 10" "(1900 + n) mod 10 = n mod 10"
proof -
  show "(1900 + n) div 1000 = 1" using assms by simp
  have "(100 * 19 + n) div 100 = 19" using assms by simp
  then show "(1900 + n) div 100 mod 10 = 9" by simp
  have a: "(10 * 190 + n) div 10 = 190 + n div 10" by simp
  have b: "(10 * 19 + n div 10) mod 10 = n div 10 mod 10" by (simp only: mod_mult_self4)
  from a b show "(1900 + n) div 10 mod 10 = n div 10 mod 10" by simp
  have "(10 * 190 + n) mod 10 = n mod 10" by (simp only: mod_mult_self4)
  then show "(1900 + n) mod 10 = n mod 10" by simp
qed

lemma pad4_2000: "n < 100 \<Longrightarrow> pad4 (2000 + n) = ''20'' @ pad2 n"
  by (simp add: pad4_def pad2_def dec_2000 digit_char_numerals)

lemma pad4_1900: "n < 100 \<Longrightarrow> pad4 (1900 + n) = ''19'' @ pad2 n"
  by (simp add: pad4_def pad2_def dec_1900 digit_char_numerals)

lemma is_leap_century: "n < 100 \<Longrightarrow> n \<noteq> 0 \<Longrightarrow> is_leap (1900 + n) = is_leap (2000 + n)"
proof -
  assume n: "n < 100" "n \<noteq> 0"
  have a: "(100 * 19 + n) mod 100 = n mod 100" "(100 * 20 + n) mod 100 = n mod 100"
    by (simp_all only: mod_mult_self4)
  have b: "(4 * 475 + n) mod 4 = n mod 4" "(4 * 500 + n) mod 4 = n mod 4"
    by (simp_all only: mod_mult_self4)
  from a b n show ?thesis by (simp add: is_leap_def)
qed

lemma calendar_valid_year_of_yy:
  assumes "n < 100" "calendar_valid (2000 + n) m d"
  shows "calendar_valid (year_of_yy n) m d"
proof (cases "n \<le> 68")
  case True
  with assms show ?thesis by (simp add: year_of_yy_def)
next
  case False
  then have "n \<noteq> 0" by simp
  from is_leap_century[OF assms(1) this]
  have "days_in_month (1900 + n) m = days_in_month (2000 + n) m"
    by (simp add: days_in_month_def)
  with assms(2) False show ?thesis
    by (simp add: year_of_yy_def calendar_valid_def)
qed

lemma strftime_year_of_yy:
  assumes "is_ascii_digit y1" "is_ascii_digit y2" "is_ascii_digit m1" "is_ascii_digit m2"
    "is_ascii_digit d1" "is_ascii_digit d2"
  shows "strftime (year_of_yy (int_of_digits [y1, y2]), int_of_digits [m1, m2],
                   int_of_digits [d1, d2]) =
         (if int_of_digits [y1, y2] \<le> 68 then ''20'' else ''19'') @ [y1, y2] @ ''-'' @
         [m1, m2] @ ''-'' @ [d1, d2]"
  using int_of_digits2_lt[OF assms(1,2)] assms
  by (simp add: strftime_def year_of_yy_def pad4_2000 pad4_1900 pad2_digits)

lemma matches6_split:
  assumes "list_all is_ascii_digit [y1, y2, m1, m2, d1, d2]"
  shows "matches6 ([y1, y2, m1, m2, d1, d2] @ CHR ''_'' # rest) =
         Some ([y1, y2, m1, m2, d1, d2], takeWhile is_word_char rest)"
  using assms by (simp add: matches6_def)

text \<open>
  Claim C2, as amended. A run identifier made of six ASCII digits that form a date of the
  calendar, an underscore and any rest is parsed into the date \<open>YYYY-MM-DD\<close>, where the
  century is 20 for a two-digit year up to 68 and 19 from 69 on, and the digits of year,
  month and day are those of the identifier; the second output is the longest run of word
  characters after the underscore.
\<close>

theorem parse_illumina_run_id_six_digit:
  assumes "list_all is_ascii_digit [y1, y2, m1, m2, d1, d2]"
    and "calendar_valid (2000 + int_of_digits [y1, y2]) (int_of_digits [m1, m2])
           (int_of_digits [d1, d2])"
  shows "parse_illumina_run_id ([y1, y2, m1, m2, d1, d2] @ CHR ''_'' # rest) =
         Inr ((if int_of_digits [y1, y2] \<le> 68 then ''20'' else ''19'') @ [y1, y2] @ ''-'' @
                [m1, m2] @ ''-'' @ [d1, d2],
              takeWhile is_word_char rest)"
proof -
  from assms(1) have dig: "is_ascii_digit y1" "is_ascii_digit y2" "is_ascii_digit m1"
    "is_ascii_digit m2" "is_ascii_digit d1" "is_ascii_digit d2"
    by simp_all
  have valid: "calendar_valid (year_of_yy (int_of_digits [y1, y2])) (int_of_digits [m1, m2])
                 (int_of_digits [d1, d2])"
    using calendar_valid_year_of_yy[OF int_of_digits2_lt[OF dig(1,2)] assms(2)] .
  have "strptime [y1, y2, m1, m2, d1, d2] Fmt_y_m_d =
        Inr (year_of_yy (int_of_digits [y1, y2]), int_of_digits [m1, m2], int_of_digits [d1, d2])"
    using valid by (simp add: strptime_def)
  then show ?thesis
    by (simp add: parse_illumina_run_id_def matches6_split[OF assms(1)]
        strftime_year_of_yy[OF dig] del: append.simps)
qed

text \<open>The theorem at the run identifier of a MiSeq run of 29 February 2020.\<close>

theorem parse_illumina_run_id_six_digit_witness:
  "parse_illumina_run_id ''200229_M05314_0001_000000000-ABCDE'' =
   Inr (''2020-02-29'', ''M05314_0001_000000000'')"
proof -
  have h1: "list_all is_ascii_digit ''200229''"
    by (simp add: is_ascii_digit_def)
  have h2: "calendar_valid (2000 + int_of_digits ''20'') (int_of_digits ''02'') (int_of_digits ''29'')"
    by code_simp
  have le: "int_of_digits ''20'' \<le> 68" by code_simp
  have tw: "takeWhile is_word_char ''M05314_0001_000000000-ABCDE'' = ''M05314_0001_000000000''"
    by code_simp
  from parse_illumina_run_id_six_digit[OF h1 h2, of "''M05314_0001_000000000-ABCDE''"]
  show ?thesis by (simp only: le tw if_True append_Cons append_Nil)
qed

text \<open>
  Claim C2 as stated fails: 990101 is six digits and 1 January exists in 2099 as in any
  year, yet the parser answers 1999-01-01, not 2099-01-01.
\<close>

theorem parse_illumina_run_id_20yy_counterexample:
  "list_all is_ascii_digit ''990101'' \<and> calendar_valid 2099 1 1 \<and>
   parse_illumina_run_id ''990101_M05314'' = Inr (''1999-01-01'', ''M05314'') \<and>
   parse_illumina_run_id ''990101_M05314'' \<noteq> Inr (''2099-01-01'', ''M05314'')"
  by code_simp

text \<open>
  Claim C7. A run identifier that matches neither the six-digit nor the eight-digit
  pattern makes \<open>parse_illumina_run_id\<close> fail with the error that describes both accepted
  formats; no result is returned.
\<close>

theorem parse_illumina_run_id_unrecognized:
  assumes "matches6 run_id = None" and "matches8 run_id = None"
  shows "parse_illumina_run_id run_id = Inl (Unrecognized_run_id run_id)"
  using assms by (simp add: parse_illumina_run_id_def)

text \<open>The theorem at a run identifier whose date is written with hyphens.\<close>

theorem parse_illumina_run_id_unrecognized_witness:
  "matches6 ''2020-01-01_run'' = None \<and> matches8 ''2020-01-01_run'' = None \<and>
   parse_illumina_run_id ''2020-01-01_run'' = Inl (Unrecognized_run_id ''2020-01-01_run'')"
proof -
  have h1: "matches6 ''2020-01-01_run'' = None" by code_simp
  have h2: "matches8 ''2020-01-01_run'' = None" by code_simp
  from h1 h2 parse_illumina_run_id_unrecognized[OF h1 h2] show ?thesis by simp
qed

section \<open>Sample names for Qiita: proofs\<close>

lemma runs_concat: "concat (runs P xs) = xs"
  by (induction P xs rule: runs.induct) simp_all

lemma runs_uniform: "r \<in> set (runs P xs) \<Longrightarrow> r \<noteq> [] \<and> list_all (\<lambda>y. P y = P (hd r)) r"
proof (induction P xs rule: runs.induct)
  case (1 P)
  then show ?case by simp
next
  case (2 P x xs)
  have "list_all (\<lambda>y. P y = P x) (takeWhile (\<lambda>y. P y = P x) xs)"
    unfolding list_all_iff using set_takeWhileD by fastforce
  with 2 show ?case by auto
qed

lemma runs_maximal:
  "runs P xs = r # s # rest \<Longrightarrow> P (hd s) \<noteq> P (hd r)"
proof (cases xs)
  case Nil
  then show "runs P xs = r # s # rest \<Longrightarrow> P (hd s) \<noteq> P (hd r)" by simp
next
  case (Cons x xs')
  assume eq: "runs P xs = r # s # rest"
  let ?d = "dropWhile (\<lambda>y. P y = P x) xs'"
  from eq Cons have r: "hd r = x" and d: "runs P ?d = s # rest" by auto
  have "?d \<noteq> []"
  proof
    assume "?d = []"
    then have "runs P ?d = []" by (simp only: runs.simps)
    with d show False by simp
  qed
  then have "\<not> (P (hd ?d) = P x)" by (rule hd_dropWhile)
  moreover from d \<open>?d \<noteq> []\<close> have "hd s = hd ?d" by (cases ?d) auto
  ultimately show "P (hd s) \<noteq> P (hd r)" using r by simp
qed

lemma re_sub_not_in_kept:
  "re_sub_not_in keep repl xs =
   takeWhile keep xs @ re_sub_not_in keep repl (dropWhile keep xs)"
  by (induction xs) simp_all

lemma re_sub_not_in_runs:
  "re_sub_not_in keep repl s = replace_maximal_runs keep repl s"
  unfolding replace_maximal_runs_def
proof (induction keep s rule: runs.induct)
  case (1 P)
  show ?case by simp
next
  case (2 P x xs)
  show ?case
  proof (cases "P x")
    case True
    then have "re_sub_not_in P repl (x # xs) =
      x # takeWhile P xs @ re_sub_not_in P repl (dropWhile P xs)"
      using re_sub_not_in_kept[of P repl xs] by simp
    with True 2 show ?thesis by simp
  next
    case False
    with 2 show ?thesis by simp
  qed
qed

lemma re_sub_not_in_all_kept:
  "list_all keep repl \<Longrightarrow> list_all keep (re_sub_not_in keep repl s)"
  by (induction keep repl s rule: re_sub_not_in.induct) simp_all

text \<open>
  Claim C8. For every string, \<open>qiita_scrub_name\<close> returns a string of characters of
  \<^verbatim>\<open>[0-9a-zA-Z\-\.]\<close> only, which is the input with each maximal run of other characters
  replaced by one full stop; "sample 1!" becomes "sample.1.".
\<close>

theorem qiita_scrub_name_maximal_runs:
  "list_all qiita_allowed (qiita_scrub_name name) \<and>
   qiita_scrub_name name = replace_maximal_runs qiita_allowed ''.'' name \<and>
   qiita_scrub_name ''sample 1!'' = ''sample.1.''"
proof -
  have "list_all qiita_allowed ''.''" by (simp add: qiita_allowed_def)
  then have "list_all qiita_allowed (qiita_scrub_name name)"
    unfolding qiita_scrub_name_def by (rule re_sub_not_in_all_kept)
  moreover have "qiita_scrub_name name = replace_maximal_runs qiita_allowed ''.'' name"
    unfolding qiita_scrub_name_def by (rule re_sub_not_in_runs)
  moreover have "qiita_scrub_name ''sample 1!'' = ''sample.1.''" by code_simp
  ultimately show ?thesis by simp
qed

section \<open>The file-pair locator: proofs\<close>

lemma and_then_lift_Inr [simp]: "and_then (lift (Inr x)) f = f x"
  by (simp add: and_then_def lift_def split: prod.splits)

lemma and_then_lift_Inl [simp]: "and_then (lift (Inl e)) f = ([], Inl e)"
  by (simp add: and_then_def lift_def)

lemma and_then_ok [simp]: "and_then (ok x) f = f x"
  by (simp add: and_then_def ok_def split: prod.splits)

lemma gunzip_empty_not_nonempty:
  "gunzip_size fs name = Some 0 \<Longrightarrow> \<not> is_nonempty_gz_file fs name"
  by (simp add: is_nonempty_gz_file_def)

lemma prefix_of_results_none:
  "length results < 2 \<Longrightarrow> prefix_of_results fs results w = ([], Inr None)"
  "2 < length results \<Longrightarrow> prefix_of_results fs results w = ([w], Inr None)"
  "length results = 2 \<Longrightarrow>
     \<not> is_nonempty_gz_file fs (sort results ! 0) \<or> \<not> is_nonempty_gz_file fs (sort results ! 1) \<Longrightarrow>
     prefix_of_results fs results w = ([], Inr None)"
  by (auto simp: prefix_of_results_def ok_def warn_def and_then_def)

lemma get_run_prefix_unfold:
  "choose_path fs run_path project pipeline = Inr path \<Longrightarrow>
   get_run_prefix fs run_path project sample_id lane pipeline =
     prefix_of_results fs (glob fs (path_join path (search_me sample_id lane)))
       (Too_many_matches (length (glob fs (path_join path (search_me sample_id lane))))
          sample_id lane (sort (glob fs (path_join path (search_me sample_id lane)))))"
  by (simp add: get_run_prefix_def Let_def)

text \<open>
  Claim C5. Once the pipeline has selected the directory to search, \<open>get_run_prefix\<close>
  returns \<open>None\<close>, without an error, when the glob has no match or one match, when it has
  more than two (then with the warning about the number of matches, and no other), and
  when it has two matches of which one decompresses to zero bytes.
\<close>

theorem get_run_prefix_none:
  assumes "choose_path fs run_path project pipeline = Inr path"
    and "results = glob fs (path_join path (search_me sample_id lane))"
  shows "(length results < 2 \<longrightarrow>
            get_run_prefix fs run_path project sample_id lane pipeline = ([], Inr None)) \<and>
         (2 < length results \<longrightarrow>
            get_run_prefix fs run_path project sample_id lane pipeline =
              ([Too_many_matches (length results) sample_id lane (sort results)], Inr None)) \<and>
         (length results = 2 \<and>
            (gunzip_size fs (sort results ! 0) = Some 0 \<or>
             gunzip_size fs (sort results ! 1) = Some 0) \<longrightarrow>
            get_run_prefix fs run_path project sample_id lane pipeline = ([], Inr None))"
  unfolding get_run_prefix_unfold[OF assms(1)] assms(2)[symmetric]
  using prefix_of_results_none[of results fs] gunzip_empty_not_nonempty[of fs]
  by blast

lemma choose_path_fs_of_globs:
  "choose_path (fs_of_globs g s) ''run'' ''proj'' ''fastp-and-minimap2'' = Inr ''run/proj''"
  by (simp add: choose_path_def fs_of_globs_def exists_and_has_files_def path_join_def)

theorem get_run_prefix_none_witness:
  "get_run_prefix fs_run ''run'' ''proj'' ''SampleZ'' ''1'' ''fastp-and-minimap2'' = ([], Inr None) \<and>
   get_run_prefix fs_run ''run'' ''proj'' ''SampleB'' ''1'' ''fastp-and-minimap2'' = ([], Inr None) \<and>
   get_run_prefix fs_run ''run'' ''proj'' ''SampleC'' ''1'' ''fastp-and-minimap2'' = ([], Inr None) \<and>
   get_run_prefix fs_run ''run'' ''proj'' ''SampleD'' ''1'' ''fastp-and-minimap2'' =
     ([Too_many_matches 3 ''SampleD'' ''1''
         [''run/proj/SampleD_S4_L001_I1_001.fastq.gz'', ''run/proj/SampleD_S4_L001_R1_001.fastq.gz'',
          ''run/proj/SampleD_S4_L001_R2_001.fastq.gz'']], Inr None)"
proof -
  have p: "choose_path fs_run ''run'' ''proj'' ''fastp-and-minimap2'' = Inr ''run/proj''"
    unfolding fs_run_def by (rule choose_path_fs_of_globs)
  have z: "glob fs_run (path_join ''run/proj'' (search_me ''SampleZ'' ''1'')) = []"
    by code_simp
  have b: "glob fs_run (path_join ''run/proj'' (search_me ''SampleB'' ''1'')) =
             [''run/proj/SampleB_S2_L001_R1_001.fastq.gz'']"
    by code_simp
  have c: "glob fs_run (path_join ''run/proj'' (search_me ''SampleC'' ''1'')) =
             [''run/proj/SampleC_S3_L001_R1_001.fastq.gz'', ''run/proj/SampleC_S3_L001_R2_001.fastq.gz'']"
    by code_simp
  have c0: "gunzip_size fs_run
              (sort [''run/proj/SampleC_S3_L001_R1_001.fastq.gz'',
                     ''run/proj/SampleC_S3_L001_R2_001.fastq.gz''] ! 1) = Some 0"
    by code_simp
  have d: "glob fs_run (path_join ''run/proj'' (search_me ''SampleD'' ''1'')) =
             [''run/proj/SampleD_S4_L001_R1_001.fastq.gz'', ''run/proj/SampleD_S4_L001_R2_001.fastq.gz'',
              ''run/proj/SampleD_S4_L001_I1_001.fastq.gz'']"
    by code_simp
  have ds: "sort [''run/proj/SampleD_S4_L001_R1_001.fastq.gz'', ''run/proj/SampleD_S4_L001_R2_001.fastq.gz'',
              ''run/proj/SampleD_S4_L001_I1_001.fastq.gz''] =
            [''run/proj/SampleD_S4_L001_I1_001.fastq.gz'', ''run/proj/SampleD_S4_L001_R1_001.fastq.gz'',
             ''run/proj/SampleD_S4_L001_R2_001.fastq.gz'']"
    by code_simp
  from get_run_prefix_none[OF p z[symmetric]]
  have 1: "get_run_prefix fs_run ''run'' ''proj'' ''SampleZ'' ''1'' ''fastp-and-minimap2'' = ([], Inr None)"
    by simp
  from get_run_prefix_none[OF p b[symmetric]]
  have 2: "get_run_prefix fs_run ''run'' ''proj'' ''SampleB'' ''1'' ''fastp-and-minimap2'' = ([], Inr None)"
    by simp
  from get_run_prefix_none[OF p c[symmetric]] c0
  have 3: "get_run_prefix fs_run ''run'' ''proj'' ''SampleC'' ''1'' ''fastp-and-minimap2'' = ([], Inr None)"
    by simp
  from get_run_prefix_none[OF p d[symmetric]]
  have 4: "get_run_prefix fs_run ''run'' ''proj'' ''SampleD'' ''1'' ''fastp-and-minimap2'' =
     ([Too_many_matches 3 ''SampleD'' ''1''
         [''run/proj/SampleD_S4_L001_I1_001.fastq.gz'', ''run/proj/SampleD_S4_L001_R1_001.fastq.gz'',
          ''run/proj/SampleD_S4_L001_R2_001.fastq.gz'']], Inr None)"
    by (simp add: ds)
  from 1 2 3 4 show ?thesis by simp
qed

lemma first_diff_common_prefix:
  "length f = length r \<Longrightarrow> f \<noteq> r \<Longrightarrow>
   first_diff f r i = Some (i + length (longest_common_prefix f r))"
proof (induction f r arbitrary: i rule: list_induct2)
  case Nil
  then show ?case by simp
next
  case (Cons x xs y ys)
  then show ?case by (cases "x = y") simp_all
qed

lemma prefix_of_names_trimmed:
  assumes "length f = length r" "f \<noteq> r" "2 \<le> length (longest_common_prefix f r)"
  shows "prefix_of_names f r = Inr (trimmed_common_prefix f r)"
proof -
  let ?p = "longest_common_prefix f r"
  have d: "first_diff f r 0 = Some (length ?p)"
    using first_diff_common_prefix[OF assms(1,2), of 0] by simp
  have "prefix ?p f" by (rule longest_common_prefix_prefix1)
  then obtain s where f: "f = ?p @ s" by (auto simp: prefix_def)
  have "take (length ?p - 2) f = take (length ?p - 2) ?p"
    by (subst f) simp
  moreover have "py_slice_to f (int (length ?p) - 2) = take (length ?p - 2) f"
    using assms(3) by (simp add: py_slice_to_def nat_diff_distrib')
  ultimately show ?thesis
    using assms(1) d
    by (simp add: prefix_of_names_def loop_index_def trimmed_common_prefix_def Let_def)
qed

lemma prefix_of_results_pair:
  assumes "sort results = [forward, reverse]"
    and "is_nonempty_gz_file fs forward" "is_nonempty_gz_file fs reverse"
  shows "prefix_of_results fs results w =
         ([], bind_err (prefix_of_names (basename forward) (basename reverse)) (\<lambda>p. Inr (Some p)))"
proof -
  have "length (sort results) = 2" using assms(1) by simp
  then have "length results = 2" by simp
  then show ?thesis using assms by (simp add: prefix_of_results_def lift_def)
qed

text \<open>
  Claim C4, as amended. When the glob of \<open>get_run_prefix\<close> has exactly two matches, both
  non-empty after decompression, whose basenames have equal length and differ first at an
  index of at least 2, the prefix returned is the longest common leading substring of the
  two basenames trimmed by two characters; for the basenames
  SampleA_S1_L001_R1_001.fastq.gz and SampleA_S1_L001_R2_001.fastq.gz it is
  SampleA_S1_L001. When the basenames differ in length the call fails with the error of
  mismatched file names.
\<close>

theorem get_run_prefix_pair:
  assumes "choose_path fs run_path project pipeline = Inr path"
    and "sort (glob fs (path_join path (search_me sample_id lane))) = [forward, reverse]"
    and "is_nonempty_gz_file fs forward" and "is_nonempty_gz_file fs reverse"
    and "f = basename forward" and "r = basename reverse"
  shows "(length f = length r \<and> f \<noteq> r \<and> 2 \<le> length (longest_common_prefix f r) \<longrightarrow>
            get_run_prefix fs run_path project sample_id lane pipeline =
              ([], Inr (Some (trimmed_common_prefix f r)))) \<and>
         (length f \<noteq> length r \<longrightarrow>
            get_run_prefix fs run_path project sample_id lane pipeline =
              ([], Inl (Mismatched_filenames f r))) \<and>
         prefix_of_names ''SampleA_S1_L001_R1_001.fastq.gz'' ''SampleA_S1_L001_R2_001.fastq.gz'' =
           Inr ''SampleA_S1_L001''"
proof -
  have g: "get_run_prefix fs run_path project sample_id lane pipeline =
           ([], bind_err (prefix_of_names f r) (\<lambda>p. Inr (Some p)))"
    unfolding get_run_prefix_unfold[OF assms(1)] assms(5,6)
    by (rule prefix_of_results_pair[OF assms(2,3,4)])
  have ex: "prefix_of_names ''SampleA_S1_L001_R1_001.fastq.gz'' ''SampleA_S1_L001_R2_001.fastq.gz'' =
           Inr ''SampleA_S1_L001''"
    by code_simp
  show ?thesis
    unfolding g using ex
    by (auto simp: bind_err_def prefix_of_names_trimmed) (simp add: prefix_of_names_def)
qed

text \<open>
  The theorem on the files of samples A and E of the example run: the names of A differ
  first in the read number, those of E have different lengths.
\<close>

theorem get_run_prefix_pair_witness:
  "get_run_prefix fs_run ''run'' ''proj'' ''SampleA'' ''1'' ''fastp-and-minimap2'' =
     ([], Inr (Some ''SampleA_S1_L001'')) \<and>
   get_run_prefix fs_run ''run'' ''proj'' ''SampleE'' ''1'' ''fastp-and-minimap2'' =
     ([], Inl (Mismatched_filenames ''SampleE_S5_L001_R1_001.fastq.gz'' ''SampleE_S5_L001_R2.fastq.gz''))"
proof -
  have p: "choose_path fs_run ''run'' ''proj'' ''fastp-and-minimap2'' = Inr ''run/proj''"
    unfolding fs_run_def by (rule choose_path_fs_of_globs)
  have a: "sort (glob fs_run (path_join ''run/proj'' (search_me ''SampleA'' ''1''))) =
             [''run/proj/SampleA_S1_L001_R1_001.fastq.gz'', ''run/proj/SampleA_S1_L001_R2_001.fastq.gz'']"
    by code_simp
  have a1: "is_nonempty_gz_file fs_run ''run/proj/SampleA_S1_L001_R1_001.fastq.gz''"
    by code_simp
  have a2: "is_nonempty_gz_file fs_run ''run/proj/SampleA_S1_L001_R2_001.fastq.gz''"
    by code_simp
  have af: "''SampleA_S1_L001_R1_001.fastq.gz'' = basename ''run/proj/SampleA_S1_L001_R1_001.fastq.gz''"
    by code_simp
  have ar: "''SampleA_S1_L001_R2_001.fastq.gz'' = basename ''run/proj/SampleA_S1_L001_R2_001.fastq.gz''"
    by code_simp
  have ah: "length ''SampleA_S1_L001_R1_001.fastq.gz'' = length ''SampleA_S1_L001_R2_001.fastq.gz'' \<and>
            ''SampleA_S1_L001_R1_001.fastq.gz'' \<noteq> ''SampleA_S1_L001_R2_001.fastq.gz'' \<and>
            2 \<le> length (longest_common_prefix ''SampleA_S1_L001_R1_001.fastq.gz''
                          ''SampleA_S1_L001_R2_001.fastq.gz'')"
    by code_simp
  have at: "trimmed_common_prefix ''SampleA_S1_L001_R1_001.fastq.gz''
              ''SampleA_S1_L001_R2_001.fastq.gz'' = ''SampleA_S1_L001''"
    by code_simp
  have e: "sort (glob fs_run (path_join ''run/proj'' (search_me ''SampleE'' ''1''))) =
             [''run/proj/SampleE_S5_L001_R1_001.fastq.gz'', ''run/proj/SampleE_S5_L001_R2.fastq.gz'']"
    by code_simp
  have e1: "is_nonempty_gz_file fs_run ''run/proj/SampleE_S5_L001_R1_001.fastq.gz''"
    by code_simp
  have e2: "is_nonempty_gz_file fs_run ''run/proj/SampleE_S5_L001_R2.fastq.gz''"
    by code_simp
  have ef: "''SampleE_S5_L001_R1_001.fastq.gz'' = basename ''run/proj/SampleE_S5_L001_R1_001.fastq.gz''"
    by code_simp
  have er: "''SampleE_S5_L001_R2.fastq.gz'' = basename ''run/proj/SampleE_S5_L001_R2.fastq.gz''"
    by code_simp
  have eh: "length ''SampleE_S5_L001_R1_001.fastq.gz'' \<noteq> length ''SampleE_S5_L001_R2.fastq.gz''"
    by code_simp
  from get_run_prefix_pair[OF p a a1 a2 af ar] ah
  have "get_run_prefix fs_run ''run'' ''proj'' ''SampleA'' ''1'' ''fastp-and-minimap2'' =
     ([], Inr (Some (trimmed_common_prefix ''SampleA_S1_L001_R1_001.fastq.gz''
                       ''SampleA_S1_L001_R2_001.fastq.gz'')))"
    by blast
  then have 1: "get_run_prefix fs_run ''run'' ''proj'' ''SampleA'' ''1'' ''fastp-and-minimap2'' =
     ([], Inr (Some ''SampleA_S1_L001''))"
    by (simp only: at)
  from get_run_prefix_pair[OF p e e1 e2 ef er] eh
  have 2: "get_run_prefix fs_run ''run'' ''proj'' ''SampleE'' ''1'' ''fastp-and-minimap2'' =
     ([], Inl (Mismatched_filenames ''SampleE_S5_L001_R1_001.fastq.gz'' ''SampleE_S5_L001_R2.fastq.gz''))"
    by blast
  from 1 2 show ?thesis by blast
qed

text \<open>
  Claim C4 as stated fails where the names differ before their third character. For the
  sample identifier \<^verbatim>\<open>*\<close> the glob of the example matches the forward files of two
  samples: two files, both non-empty, with basenames of equal length. Their longest common
  leading substring is empty, and so is its trimming, but the loop leaves \<^verbatim>\<open>i = -2\<close> and
  \<^verbatim>\<open>f[:-2]\<close> is the first name without its last two characters.
\<close>

theorem get_run_prefix_trim_counterexample:
  "sort (glob fs_wild (path_join ''run/proj'' (search_me ''*'' ''1''))) =
     [''run/proj/A_S1_L001_R1.fastq.gz'', ''run/proj/B_S1_L001_R1.fastq.gz''] \<and>
   is_nonempty_gz_file fs_wild ''run/proj/A_S1_L001_R1.fastq.gz'' \<and>
   is_nonempty_gz_file fs_wild ''run/proj/B_S1_L001_R1.fastq.gz'' \<and>
   length (basename ''run/proj/A_S1_L001_R1.fastq.gz'') =
     length (basename ''run/proj/B_S1_L001_R1.fastq.gz'') \<and>
   trimmed_common_prefix (basename ''run/proj/A_S1_L001_R1.fastq.gz'')
     (basename ''run/proj/B_S1_L001_R1.fastq.gz'') = [] \<and>
   get_run_prefix fs_wild ''run'' ''proj'' ''*'' ''1'' ''fastp-and-minimap2'' =
     ([], Inr (Some ''A_S1_L001_R1.fastq.''))"
  by code_simp

section \<open>The transform of the American Gut Project: proofs\<close>

lemma bind_err_Inr_iff:
  "bind_err m f = Inr y \<longleftrightarrow> (\<exists>x. m = Inr x \<and> f x = Inr y)"
  by (cases m) (simp_all add: bind_err_def)

lemma bind_err_Inr [simp]: "bind_err (Inr x) f = f x"
  by (simp add: bind_err_def)

lemma bind_err_Inl [simp]: "bind_err (Inl e) f = Inl e"
  by (simp add: bind_err_def)

lemma py_isdigit_no_sign: "py_isdigit c \<Longrightarrow> c \<noteq> CHR ''+'' \<and> c \<noteq> CHR ''-''"
  by (auto simp: py_isdigit_def is_ascii_digit_def Let_def)

lemma py_isdigit_zero: "py_isdigit CHR ''0''"
  by (simp add: py_isdigit_def is_ascii_digit_def)

lemma zfill_long: "9 \<le> length s \<Longrightarrow> zfill 9 s = s"
  by (simp add: zfill_def)

lemma zfill_length: "9 \<le> length (zfill 9 s)"
  by (auto simp: zfill_def split: list.splits)

lemma zfill_digit_hd:
  "py_isdigit c \<Longrightarrow> \<exists>d ds. zfill 9 (c # cs) = d # ds \<and> py_isdigit d"
  using py_isdigit_no_sign[of c] py_isdigit_zero
  by (cases "9 - Suc (length cs)") (auto simp: zfill_def)

lemma zero_fill_idem: "zero_fill name = Inr name' \<Longrightarrow> zero_fill name' = Inr name'"
proof (cases "sublist ''blank'' (py_lower name)")
  case True
  assume "zero_fill name = Inr name'"
  with True have "name' = name" by (simp add: zero_fill_def)
  with True show ?thesis by (simp add: zero_fill_def)
next
  case False
  assume z: "zero_fill name = Inr name'"
  with False obtain c cs where n: "name = c # cs"
    by (cases name) (simp_all add: zero_fill_def)
  show ?thesis
  proof (cases "py_isdigit c")
    case True
    with z False n have eq: "name' = zfill 9 (c # cs)" by (simp add: zero_fill_def)
    from zfill_digit_hd[OF True, of cs] obtain d ds where
      d: "zfill 9 (c # cs) = d # ds" "py_isdigit d" by blast
    have "zfill 9 name' = name'" unfolding eq by (rule zfill_long) (rule zfill_length)
    with eq d show ?thesis by (simp add: zero_fill_def)
  next
    case False
    with z \<open>\<not> sublist ''blank'' (py_lower name)\<close> n have "name' = name"
      by (simp add: zero_fill_def)
    with z show ?thesis by simp
  qed
qed

lemma traverse_Inr_length: "traverse f xs = Inr ys \<Longrightarrow> length ys = length xs"
  by (induction xs arbitrary: ys) (auto simp: bind_err_Inr_iff)

lemma traverse_zero_fill_idem:
  "traverse zero_fill xs = Inr ys \<Longrightarrow> traverse zero_fill ys = Inr ys"
proof (induction xs arbitrary: ys)
  case Nil
  then show ?case by simp
next
  case (Cons x xs)
  then obtain y ys' where "zero_fill x = Inr y" "traverse zero_fill xs = Inr ys'" "ys = y # ys'"
    by (auto simp: bind_err_Inr_iff)
  with Cons.IH[of ys'] zero_fill_idem[of x y] show ?case by simp
qed

lemma traverse_zero_fill_total:
  "[] \<notin> set xs \<Longrightarrow> \<exists>ys. traverse zero_fill xs = Inr ys"
proof (induction xs)
  case Nil
  then show ?case by simp
next
  case (Cons x xs)
  then obtain ys where ys: "traverse zero_fill xs = Inr ys" by auto
  from Cons.prems obtain c cs where "x = c # cs" by (cases x) auto
  then have "\<exists>y. zero_fill x = Inr y" by (simp add: zero_fill_def)
  with ys show ?case by auto
qed

lemma zero_fill_empty: "zero_fill [] = Inl IndexError"
  by (simp add: zero_fill_def py_lower_def)

lemma zero_fill_error: "zero_fill x = Inl e \<Longrightarrow> e = IndexError"
  by (auto simp: zero_fill_def split: if_splits list.splits)

lemma traverse_zero_fill_error: "traverse zero_fill xs = Inl e \<Longrightarrow> e = IndexError"
proof (induction xs)
  case Nil
  then show ?case by simp
next
  case (Cons x xs)
  then show ?case
    by (cases "zero_fill x"; cases "traverse zero_fill xs") (auto dest: zero_fill_error)
qed

lemma traverse_zero_fill_empty:
  "[] \<in> set xs \<Longrightarrow> traverse zero_fill xs = Inl IndexError"
proof (induction xs)
  case Nil
  then show ?case by simp
next
  case (Cons x xs)
  show ?case
  proof (cases "zero_fill x")
    case (Inl e)
    then show ?thesis using zero_fill_error[OF Inl] by simp
  next
    case (Inr y)
    then have "x \<noteq> []" using zero_fill_empty by auto
    with Cons have "traverse zero_fill xs = Inl IndexError" by auto
    with Inr show ?thesis by simp
  qed
qed

lemma cell_update: "cell (AList.update k v r) k' = (if k' = k then v else cell r k')"
  by (simp add: cell_def update_conv')

lemma cells_after_update:
  "length rs = length vs \<Longrightarrow>
   map (\<lambda>(i, r). cell r c) (map (\<lambda>((i, r), v). (i, AList.update c v r)) (zip rs vs)) = vs"
  by (induction rs vs rule: list_induct2) (auto simp: cell_update)

lemma cells_after_other_update:
  "length rs = length vs \<Longrightarrow> c' \<noteq> c \<Longrightarrow>
   map (\<lambda>(i, r). cell r c') (map (\<lambda>((i, r), v). (i, AList.update c v r)) (zip rs vs)) =
   map (\<lambda>(i, r). cell r c') rs"
  by (induction rs vs rule: list_induct2) (auto simp: cell_update)

lemma column_values_assign_column:
  "length vs = length (rows f) \<Longrightarrow> column_values (assign_column c vs f) c = vs"
  using cells_after_update[of "rows f" vs c] by (simp add: column_values_def assign_column_def)

lemma column_values_assign_other:
  "c' \<noteq> c \<Longrightarrow> length vs = length (rows f) \<Longrightarrow>
   column_values (assign_column c vs f) c' = column_values f c'"
  using cells_after_other_update[of "rows f" vs c' c]
  by (simp add: column_values_def assign_column_def)

lemma length_rows_assign_column:
  "length vs = length (rows f) \<Longrightarrow> length (rows (assign_column c vs f)) = length (rows f)"
  by (simp add: assign_column_def)

lemma columns_assign_column:
  "columns (assign_column c vs f) = (if c \<in> set (columns f) then columns f else columns f @ [c])"
  by (simp add: assign_column_def)

lemma assign_column_same:
  assumes "c \<in> set (columns f)"
    and "list_all2 (\<lambda>(i, r) v. map_of r c = Some v) (rows f) vs"
  shows "assign_column c vs f = f"
proof -
  from assms(2) have "map (\<lambda>((i, r), v). (i, AList.update c v r)) (zip (rows f) vs) = rows f"
    by (induction rule: list_all2_induct) (auto simp: update_triv)
  with assms(1) show ?thesis by (simp add: assign_column_def)
qed

lemma updated_rows_map_of:
  "length rs = length vs \<Longrightarrow>
   list_all2 (\<lambda>(i, r) v. map_of r c = Some v)
     (map (\<lambda>((i, r), v). (i, AList.update c v r)) (zip rs vs)) vs"
  by (induction rs vs rule: list_induct2) (auto simp: update_conv')

lemma updated_rows_keep:
  "length rs = length vs \<Longrightarrow> c' \<noteq> c \<Longrightarrow>
   list_all2 (\<lambda>(i, r) v. map_of r c' = Some v) rs ws \<Longrightarrow>
   list_all2 (\<lambda>(i, r) v. map_of r c' = Some v)
     (map (\<lambda>((i, r), v). (i, AList.update c v r)) (zip rs vs)) ws"
proof (induction rs vs arbitrary: ws rule: list_induct2)
  case Nil
  then show ?case by simp
next
  case (Cons x xs y ys)
  from Cons.prems(2) obtain w ws' where ws: "ws = w # ws'" by (cases ws) auto
  with Cons show ?case by (cases x) (auto simp: update_conv')
qed

lemma rows_assign_column_map_of:
  "length vs = length (rows f) \<Longrightarrow>
   list_all2 (\<lambda>(i, r) v. map_of r c = Some v) (rows (assign_column c vs f)) vs"
  by (simp add: assign_column_def updated_rows_map_of)

lemma rows_assign_column_keeps:
  "length vs = length (rows f) \<Longrightarrow> c' \<noteq> c \<Longrightarrow>
   list_all2 (\<lambda>(i, r) v. map_of r c' = Some v) (rows f) ws \<Longrightarrow>
   list_all2 (\<lambda>(i, r) v. map_of r c' = Some v) (rows (assign_column c vs f)) ws"
  by (simp add: assign_column_def updated_rows_keep)

lemma agp_transform_unfold:
  assumes "''sample_name'' \<in> set (columns t)"
    and "traverse zero_fill (column_values t ''sample_name'') = Inr names"
  shows "agp_transform t ''10317'' =
         Inr (assign_scalar ''experiment_design_description''
                ''samples of skin, saliva and feces and other samples from the AGP''
             (assign_scalar ''library_construction_protocol'' ''Knight Lab KHP''
             (assign_scalar ''center_name'' ''UCSDMI''
             (assign_column ''sample_name'' names t))))"
  using assms by (simp add: agp_transform_def)

lemma agp_transform_Inr_D:
  assumes "agp_transform t ''10317'' = Inr t'"
  shows "''sample_name'' \<in> set (columns t) \<and>
         (\<exists>names. traverse zero_fill (column_values t ''sample_name'') = Inr names)"
  using assms by (auto simp: agp_transform_def bind_err_Inr_iff split: if_splits)

lemma agp_transform_idem:
  assumes "agp_transform t ''10317'' = Inr t'"
  shows "agp_transform t' ''10317'' = Inr t'"
proof -
  let ?e = "''samples of skin, saliva and feces and other samples from the AGP''"
  from agp_transform_Inr_D[OF assms] obtain names where
    col: "''sample_name'' \<in> set (columns t)" and
    names: "traverse zero_fill (column_values t ''sample_name'') = Inr names" by blast
  have len: "length names = length (rows t)"
    using traverse_Inr_length[OF names] by (simp add: column_values_def)
  define n where "n = length (rows t)"
  define t1 where "t1 = assign_column ''sample_name'' names t"
  define t2 where "t2 = assign_scalar ''center_name'' ''UCSDMI'' t1"
  define t3 where "t3 = assign_scalar ''library_construction_protocol'' ''Knight Lab KHP'' t2"
  define t4 where "t4 = assign_scalar ''experiment_design_description'' ?e t3"
  have t': "t' = t4"
    using assms agp_transform_unfold[OF col names] by (simp add: t4_def t3_def t2_def t1_def)
  have l1: "length (rows t1) = n" by (simp add: t1_def n_def length_rows_assign_column len)
  have l2: "length (rows t2) = n" by (simp add: t2_def assign_scalar_def length_rows_assign_column l1)
  have l3: "length (rows t3) = n" by (simp add: t3_def assign_scalar_def length_rows_assign_column l2)
  have l4: "length (rows t4) = n" by (simp add: t4_def assign_scalar_def length_rows_assign_column l3)
  have c1: "''sample_name'' \<in> set (columns t1)" using col by (simp add: t1_def columns_assign_column)
  have c2: "{''sample_name'', ''center_name''} \<subseteq> set (columns t2)"
    using c1 by (simp add: t2_def assign_scalar_def columns_assign_column)
  have c3: "{''sample_name'', ''center_name'', ''library_construction_protocol''} \<subseteq> set (columns t3)"
    using c2 by (simp add: t3_def assign_scalar_def columns_assign_column)
  have c4: "{''sample_name'', ''center_name'', ''library_construction_protocol'',
             ''experiment_design_description''} \<subseteq> set (columns t4)"
    using c3 by (simp add: t4_def assign_scalar_def columns_assign_column)
  have s1: "list_all2 (\<lambda>(i, r) v. map_of r ''sample_name'' = Some v) (rows t1) names"
    unfolding t1_def by (rule rows_assign_column_map_of[OF len])
  have s2: "list_all2 (\<lambda>(i, r) v. map_of r ''sample_name'' = Some v) (rows t2) names"
    unfolding t2_def assign_scalar_def by (rule rows_assign_column_keeps[OF _ _ s1]) simp_all
  have s3: "list_all2 (\<lambda>(i, r) v. map_of r ''sample_name'' = Some v) (rows t3) names"
    unfolding t3_def assign_scalar_def by (rule rows_assign_column_keeps[OF _ _ s2]) simp_all
  have s4: "list_all2 (\<lambda>(i, r) v. map_of r ''sample_name'' = Some v) (rows t4) names"
    unfolding t4_def assign_scalar_def by (rule rows_assign_column_keeps[OF _ _ s3]) simp_all
  have n2: "list_all2 (\<lambda>(i, r) v. map_of r ''center_name'' = Some v) (rows t2) (replicate n ''UCSDMI'')"
    unfolding t2_def assign_scalar_def l1 by (rule rows_assign_column_map_of) (simp add: l1)
  have n3: "list_all2 (\<lambda>(i, r) v. map_of r ''center_name'' = Some v) (rows t3) (replicate n ''UCSDMI'')"
    unfolding t3_def assign_scalar_def by (rule rows_assign_column_keeps[OF _ _ n2]) simp_all
  have n4: "list_all2 (\<lambda>(i, r) v. map_of r ''center_name'' = Some v) (rows t4) (replicate n ''UCSDMI'')"
    unfolding t4_def assign_scalar_def by (rule rows_assign_column_keeps[OF _ _ n3]) simp_all
  have p3: "list_all2 (\<lambda>(i, r) v. map_of r ''library_construction_protocol'' = Some v) (rows t3)
              (replicate n ''Knight Lab KHP'')"
    unfolding t3_def assign_scalar_def l2 by (rule rows_assign_column_map_of) (simp add: l2)
  have p4: "list_all2 (\<lambda>(i, r) v. map_of r ''library_construction_protocol'' = Some v) (rows t4)
              (replicate n ''Knight Lab KHP'')"
    unfolding t4_def assign_scalar_def by (rule rows_assign_column_keeps[OF _ _ p3]) simp_all
  have e4: "list_all2 (\<lambda>(i, r) v. map_of r ''experiment_design_description'' = Some v) (rows t4)
              (replicate n ?e)"
    unfolding t4_def assign_scalar_def l3 by (rule rows_assign_column_map_of) (simp add: l3)
  have v4: "column_values t4 ''sample_name'' = names"
    using s4 unfolding column_values_def
    by (induction rule: list_all2_induct) (auto simp: cell_def)
  have tr: "traverse zero_fill (column_values t4 ''sample_name'') = Inr names"
    unfolding v4 by (rule traverse_zero_fill_idem[OF names])
  have a1: "assign_column ''sample_name'' names t4 = t4"
    using c4 s4 by (intro assign_column_same) simp_all
  have a2: "assign_scalar ''center_name'' ''UCSDMI'' t4 = t4"
    unfolding assign_scalar_def l4 using c4 n4 by (intro assign_column_same) simp_all
  have a3: "assign_scalar ''library_construction_protocol'' ''Knight Lab KHP'' t4 = t4"
    unfolding assign_scalar_def l4 using c4 p4 by (intro assign_column_same) simp_all
  have a4: "assign_scalar ''experiment_design_description'' ?e t4 = t4"
    unfolding assign_scalar_def l4 using c4 e4 by (intro assign_column_same) simp_all
  have "''sample_name'' \<in> set (columns t4)" using c4 by simp
  from agp_transform_unfold[OF this tr] show ?thesis
    unfolding t' by (simp only: a1 a2 a3 a4)
qed

lemma agp_transform_total:
  assumes "''sample_name'' \<in> set (columns t)" and "[] \<notin> set (column_values t ''sample_name'')"
  shows "\<exists>t'. agp_transform t ''10317'' = Inr t'"
proof -
  from traverse_zero_fill_total[OF assms(2)] obtain names where
    "traverse zero_fill (column_values t ''sample_name'') = Inr names" by blast
  from agp_transform_unfold[OF assms(1) this] show ?thesis by blast
qed

lemma agp_transform_empty_name:
  assumes "''sample_name'' \<in> set (columns t)" and "[] \<in> set (column_values t ''sample_name'')"
  shows "agp_transform t ''10317'' = Inl IndexError"
  using assms traverse_zero_fill_empty[OF assms(2)] by (simp add: agp_transform_def)

text \<open>
  Claim C6. \<open>agp_transform\<close> is idempotent on the study 10317: a table with a column of
  sample names, none of them empty, is transformed into a table that a second
  application returns as it is; and whenever the first application returns a table at
  all, the second returns the same table. For every other study identifier the table
  comes back with no field changed.
\<close>

theorem agp_transform_idempotent:
  "(''sample_name'' \<in> set (columns t) \<and> [] \<notin> set (column_values t ''sample_name'') \<longrightarrow>
      (\<exists>t'. agp_transform t ''10317'' = Inr t' \<and> agp_transform t' ''10317'' = Inr t')) \<and>
   (agp_transform t ''10317'' = Inr t1 \<longrightarrow> agp_transform t1 ''10317'' = Inr t1) \<and>
   (study_id \<noteq> ''10317'' \<longrightarrow> agp_transform t study_id = Inr t)"
proof (intro conjI impI)
  assume "''sample_name'' \<in> set (columns t) \<and> [] \<notin> set (column_values t ''sample_name'')"
  then obtain t' where "agp_transform t ''10317'' = Inr t'"
    using agp_transform_total by blast
  with agp_transform_idem[OF this]
  show "\<exists>t'. agp_transform t ''10317'' = Inr t' \<and> agp_transform t' ''10317'' = Inr t'"
    by blast
next
  assume "agp_transform t ''10317'' = Inr t1"
  then show "agp_transform t1 ''10317'' = Inr t1" by (rule agp_transform_idem)
next
  assume "study_id \<noteq> ''10317''"
  then show "agp_transform t study_id = Inr t" by (simp add: agp_transform_def)
qed

text \<open>
  The theorem on a table of the American Gut Project, whose first name is padded and
  whose three columns are overwritten, and on the same table under another study.
\<close>

theorem agp_transform_idempotent_witness:
  "agp_transform agp_table ''10317'' = Inr agp_table_filled \<and>
   agp_transform agp_table_filled ''10317'' = Inr agp_table_filled \<and>
   agp_transform agp_table ''550'' = Inr agp_table"
proof -
  have h: "''sample_name'' \<in> set (columns agp_table) \<and>
           [] \<notin> set (column_values agp_table ''sample_name'')"
    by code_simp
  have once: "agp_transform agp_table ''10317'' = Inr agp_table_filled"
    by code_simp
  have other: "''550'' \<noteq> ''10317''" by simp
  from agp_transform_idempotent[of agp_table agp_table_filled "''550''"] h once other
  show ?thesis by blast
qed

text \<open>
  Claim C10. On the study 10317 and a table with a column of sample names,
  \<open>agp_transform\<close> returns a table exactly when no sample name is the empty string; a table
  with an empty sample name makes it fail with the error of an index out of range.
\<close>

theorem agp_transform_nonempty_names:
  assumes "''sample_name'' \<in> set (columns t)"
  shows "((\<exists>t'. agp_transform t ''10317'' = Inr t') \<longleftrightarrow>
            [] \<notin> set (column_values t ''sample_name'')) \<and>
         ([] \<in> set (column_values t ''sample_name'') \<longrightarrow>
            agp_transform t ''10317'' = Inl IndexError)"
  using agp_transform_total[OF assms] agp_transform_empty_name[OF assms] by auto

text \<open>The theorem on a table whose second sample has the empty name, and on one without.\<close>

theorem agp_transform_nonempty_names_witness:
  "agp_transform unnamed_table ''10317'' = Inl IndexError \<and>
   (\<exists>t'. agp_transform agp_table ''10317'' = Inr t')"
proof -
  have c: "''sample_name'' \<in> set (columns unnamed_table)" by code_simp
  have e: "[] \<in> set (column_values unnamed_table ''sample_name'')" by code_simp
  have c': "''sample_name'' \<in> set (columns agp_table)" by code_simp
  have e': "[] \<notin> set (column_values agp_table ''sample_name'')" by code_simp
  from agp_transform_nonempty_names[OF c] e agp_transform_nonempty_names[OF c'] e'
  show ?thesis by blast
qed

section \<open>The assemblers: proofs\<close>

text \<open>
  Claim C1 does not hold of the code. The mapping file of the example passes the checks
  of the columns and of the study identifier, and no file of its project is found, so
  \<open>get_run_prefix_mf\<close> returns \<open>None\<close>. The call then fails with \<^verbatim>\<open>AttributeError\<close>, raised
  by \<^verbatim>\<open>run_prefix.split\<close>, and not with the error of the missing run prefix, whose test
  comes one statement too late.
\<close>

theorem mapping_file_missing_prefix_attribute_error:
  "get_run_prefix_mf fs_empty ''/data/run'' ''proj_550'' = ([], Inr None) \<and>
   snd (preparations_for_run_mapping_file fs_empty ''/data/run'' example_mapping_file) =
     ([], Inl (AttributeError ''split'')) \<and>
   snd (preparations_for_run_mapping_file fs_empty ''/data/run'' example_mapping_file) \<noteq>
     ([], Inl Missing_run_prefix)"
  by code_simp


lemma and_then_Inl_iff:
  "and_then m f = (ws, Inl e) \<longleftrightarrow>
   (m = (ws, Inl e) \<or> (\<exists>ws1 x ws2. m = (ws1, Inr x) \<and> f x = (ws2, Inl e) \<and> ws = ws1 @ ws2))"
  by (cases m; cases "snd m") (auto simp: and_then_def split: prod.splits)

lemma for_each_error:
  assumes "\<And>x s ws e. body x s = (ws, Inl e) \<Longrightarrow> P e"
  shows "for_each body xs s = (ws, Inl e) \<Longrightarrow> P e"
proof (induction xs arbitrary: s ws)
  case Nil
  then show ?case by (simp add: ok_def)
next
  case (Cons x xs)
  from Cons.prems have
    "body x s = (ws, Inl e) \<or>
     (\<exists>ws1 s1 ws2. body x s = (ws1, Inr s1) \<and> for_each body xs s1 = (ws2, Inl e))"
    by (auto simp: and_then_Inl_iff)
  then show ?case using assms Cons.IH by blast
qed

lemma rows_assign_scalar:
  "rows (assign_scalar c v f) = map (\<lambda>(i, r). (i, AList.update c v r)) (rows f)"
proof -
  have "map (\<lambda>((i, r), v). (i, AList.update c v r)) (zip rs (replicate (length rs) v)) =
        map (\<lambda>(i, r). (i, AList.update c v r)) rs" for rs :: "('a \<times> row) list"
    by (induction rs) auto
  then show ?thesis by (simp add: assign_scalar_def assign_column_def)
qed

lemma columns_assign_scalar:
  "columns (assign_scalar c v f) = (if c \<in> set (columns f) then columns f else columns f @ [c])"
  by (simp add: assign_scalar_def assign_column_def)

lemma column_values_drop_column:
  "c' \<noteq> c \<Longrightarrow> column_values (drop_column c f) c' = column_values f c'"
  by (simp add: column_values_def drop_column_def cell_def delete_conv' comp_def split_def)

lemma length_column_values: "length (column_values f c) = length (rows f)"
  by (simp add: column_values_def)

lemma traverse_total:
  "(\<And>x. x \<in> set xs \<Longrightarrow> \<exists>y. f x = Inr y) \<Longrightarrow> \<exists>ys. traverse f xs = Inr ys"
proof (induction xs)
  case Nil
  then show ?case by simp
next
  case (Cons x xs)
  then obtain y ys where "f x = Inr y" "traverse f xs = Inr ys" by (meson list.set_intros)
  then show ?case by simp
qed

lemma preparations_for_run_sheet:
  assumes "parse_illumina_run_id (basename (normpath run_path)) = Inr pr"
    and "get_model_and_center (snd pr) = Inr mc"
    and "set REQUIRED_COLUMNS \<subseteq> set (columns sheet)"
  shows "fst (preparations_for_run fs run_path sheet pipeline) = snd (normalize_description sheet)"
proof -
  from assms(3) have "filter (\<lambda>c. c \<notin> set (columns sheet)) REQUIRED_COLUMNS = []"
    by (auto simp: filter_empty_conv)
  with assms(1,2) show ?thesis
    by (cases pr; cases mc) (simp add: preparations_for_run_def Let_def split: prod.splits)
qed

lemma normalize_description_renames:
  assumes "''well_description'' \<notin> set (columns sheet)" and "''description'' \<in> set (columns sheet)"
  shows "columns (snd (normalize_description sheet)) =
           removeAll ''description'' (columns sheet) @ [''well_description'']"
    and "column_values (snd (normalize_description sheet)) ''well_description'' =
           column_values sheet ''description''"
    and "c \<noteq> ''description'' \<Longrightarrow> c \<noteq> ''well_description'' \<Longrightarrow>
           column_values (snd (normalize_description sheet)) c = column_values sheet c"
proof -
  let ?vs = "column_values sheet ''description''"
  have n: "snd (normalize_description sheet) =
           drop_column ''description'' (assign_column ''well_description'' ?vs sheet)"
    using assms by (simp add: normalize_description_def)
  show "columns (snd (normalize_description sheet)) =
           removeAll ''description'' (columns sheet) @ [''well_description'']"
    using assms by (simp add: n drop_column_def assign_column_def)
  have l: "length ?vs = length (rows sheet)" by (rule length_column_values)
  show "column_values (snd (normalize_description sheet)) ''well_description'' = ?vs"
    unfolding n using column_values_assign_column[OF l, of "''well_description''"]
    by (simp add: column_values_drop_column)
  show "column_values (snd (normalize_description sheet)) c = column_values sheet c"
    if "c \<noteq> ''description''" "c \<noteq> ''well_description''"
    unfolding n using that column_values_assign_other[OF that(2) l]
    by (simp add: column_values_drop_column)
qed

lemma add_sample_id_columns:
  "\<exists>extra. columns (fst (add_sample_id f)) = columns f @ extra \<and> set extra \<subseteq> {''Sample_ID''}"
  by (auto simp: add_sample_id_def assign_column_def split: sum.splits)

lemma mapping_file_after:
  "fst (preparations_for_run_mapping_file fs run_path mf) =
   fst (add_sample_id (assign_scalar ''lane'' ''1'' (lower_columns mf)))"
  by (simp add: preparations_for_run_mapping_file_def Let_def split: prod.splits sum.splits)

lemma mapping_file_columns:
  "\<exists>extra. columns (fst (preparations_for_run_mapping_file fs run_path mf)) =
             map py_lower (columns mf) @ extra \<and>
           set extra \<subseteq> {''lane'', ''Sample_ID''} \<and>
           ''lane'' \<in> set (map py_lower (columns mf) @ extra)"
proof -
  let ?mf2 = "assign_scalar ''lane'' ''1'' (lower_columns mf)"
  obtain extra where e: "columns (fst (add_sample_id ?mf2)) = columns ?mf2 @ extra"
    "set extra \<subseteq> {''Sample_ID''}"
    using add_sample_id_columns by blast
  show ?thesis
  proof (cases "''lane'' \<in> set (map py_lower (columns mf))")
    case True
    then have "columns ?mf2 = map py_lower (columns mf)"
      by (simp add: columns_assign_scalar lower_columns_def)
    with e True show ?thesis unfolding mapping_file_after by auto
  next
    case False
    then have "columns ?mf2 = map py_lower (columns mf) @ [''lane'']"
      by (simp add: columns_assign_scalar lower_columns_def)
    with e show ?thesis unfolding mapping_file_after
      by (intro exI[of _ "''lane'' # extra"]) auto
  qed
qed

lemma sample_ids_total:
  assumes "aligned mf" and "''sample_name'' \<in> set (map py_lower (columns mf))"
  shows "\<exists>ids. sample_ids (assign_scalar ''lane'' ''1'' (lower_columns mf)) = Inr ids"
  unfolding sample_ids_def
proof (rule traverse_total)
  fix x assume "x \<in> set (rows (assign_scalar ''lane'' ''1'' (lower_columns mf)))"
  then obtain i r where x: "x = (i, AList.update ''lane'' ''1'' (map (\<lambda>(k, v). (py_lower k, v)) r))"
    and r: "(i, r) \<in> set (rows mf)"
    by (auto simp: rows_assign_scalar lower_columns_def)
  from assms(1) r have "map fst r = columns mf" by (auto simp: aligned_def list_all_iff)
  moreover have "map fst (map (\<lambda>(k, v). (py_lower k, v)) r) = map py_lower (map fst r)"
    by (induction r) auto
  ultimately have "set (map fst (map (\<lambda>(k, v). (py_lower k, v)) r)) =
                   set (map py_lower (columns mf))"
    by simp
  with assms(2) have "''sample_name'' \<in> fst ` set (map (\<lambda>(k, v). (py_lower k, v)) r)"
    by (simp only: set_map) 
  then obtain v where "map_of (map (\<lambda>(k, v). (py_lower k, v)) r) ''sample_name'' = Some v"
    by (metis domD dom_map_of_conv_image_fst)
  then have "getitem (AList.update ''lane'' ''1'' (map (\<lambda>(k, v). (py_lower k, v)) r)) ''sample_name'' = Inr v"
    by (simp add: getitem_def update_conv')
  then show "\<exists>y. (case x of (i, r) \<Rightarrow> bind_err (getitem r ''sample_name'')
                      (\<lambda>name. Inr (re_sub_not_in bcl_allowed ''_'' name))) = Inr y"
    by (simp add: x)
qed

lemma mapping_file_sample_id:
  assumes "aligned mf" and "rows mf \<noteq> []" and "''sample_name'' \<in> set (map py_lower (columns mf))"
  shows "''Sample_ID'' \<in> set (columns (fst (preparations_for_run_mapping_file fs run_path mf)))"
proof -
  let ?mf2 = "assign_scalar ''lane'' ''1'' (lower_columns mf)"
  from sample_ids_total[OF assms(1,3)] obtain ids where ids: "sample_ids ?mf2 = Inr ids" by blast
  from assms(2) have "rows ?mf2 \<noteq> []" by (simp add: rows_assign_scalar lower_columns_def)
  with ids have "fst (add_sample_id ?mf2) = assign_column ''Sample_ID'' ids ?mf2"
    by (simp add: add_sample_id_def)
  then show ?thesis unfolding mapping_file_after by (simp add: columns_assign_column)
qed

text \<open>
  Claim C9, as amended. Both assemblers change the table they are given. When the run
  identifier parses, the instrument resolves and the required columns are there,
  \<open>preparations_for_run\<close> on a sheet without \<^verbatim>\<open>well_description\<close> and with \<^verbatim>\<open>description\<close>
  leaves the caller's sheet with a new last column \<^verbatim>\<open>well_description\<close> that holds the
  values of \<^verbatim>\<open>description\<close>, without the column \<^verbatim>\<open>description\<close>, and with every other column
  as it was. \<open>preparations_for_run_mapping_file\<close> always leaves the caller's mapping file
  with its column names in lower case, followed by a column \<^verbatim>\<open>lane\<close> if there was none and
  at most by \<^verbatim>\<open>Sample_ID\<close>; the column \<^verbatim>\<open>Sample_ID\<close> is there when the mapping file has rows
  and a column of sample names.
\<close>

theorem assemblers_change_their_input:
  "(parse_illumina_run_id (basename (normpath run_path)) = Inr pr \<and>
    get_model_and_center (snd pr) = Inr mc \<and>
    set REQUIRED_COLUMNS \<subseteq> set (columns sheet) \<and>
    ''well_description'' \<notin> set (columns sheet) \<and> ''description'' \<in> set (columns sheet) \<longrightarrow>
      columns (fst (preparations_for_run fs run_path sheet pipeline)) =
        removeAll ''description'' (columns sheet) @ [''well_description''] \<and>
      column_values (fst (preparations_for_run fs run_path sheet pipeline)) ''well_description'' =
        column_values sheet ''description'' \<and>
      (\<forall>c. c \<noteq> ''description'' \<and> c \<noteq> ''well_description'' \<longrightarrow>
         column_values (fst (preparations_for_run fs run_path sheet pipeline)) c =
           column_values sheet c)) \<and>
   (\<exists>extra. columns (fst (preparations_for_run_mapping_file fs run_path mf)) =
              map py_lower (columns mf) @ extra \<and>
            set extra \<subseteq> {''lane'', ''Sample_ID''} \<and>
            ''lane'' \<in> set (map py_lower (columns mf) @ extra)) \<and>
   (aligned mf \<and> rows mf \<noteq> [] \<and> ''sample_name'' \<in> set (map py_lower (columns mf)) \<longrightarrow>
      ''Sample_ID'' \<in> set (columns (fst (preparations_for_run_mapping_file fs run_path mf))))"
  using preparations_for_run_sheet[of run_path pr mc sheet fs pipeline]
    normalize_description_renames[of sheet]
    mapping_file_columns[of fs run_path mf] mapping_file_sample_id[of mf fs run_path]
  by simp

text \<open>
  The theorem on the example sheet, whose run is one of the MiSeq M05314, and on the
  example mapping file.
\<close>

theorem assemblers_change_their_input_witness:
  "columns (fst (preparations_for_run fs_sheet sheet_run_path example_sheet ''fastp-and-minimap2'')) =
     [''sample_plate'', ''sample_well'', ''i7_index_id'', ''index'', ''i5_index_id'', ''index2'',
      ''sample_name'', ''sample_project'', ''lane'', ''experiment_design_description'',
      ''library_construction_protocol'', ''well_description''] \<and>
   column_values (fst (preparations_for_run fs_sheet sheet_run_path example_sheet
                         ''fastp-and-minimap2'')) ''well_description'' = [''a sample'', ''a sample''] \<and>
   ''Sample_ID'' \<in> set (columns (fst (preparations_for_run_mapping_file fs_amplicon ''/data/run''
                                        example_mapping_file)))"
proof -
  have p: "parse_illumina_run_id (basename (normpath sheet_run_path)) =
           Inr (''2020-02-29'', ''M05314_0001_000000000'')"
    by code_simp
  have m: "get_model_and_center (snd (''2020-02-29'', ''M05314_0001_000000000'')) =
           Inr (''Illumina MiSeq'', ''KLM'')"
    by code_simp
  have r: "set REQUIRED_COLUMNS \<subseteq> set (columns example_sheet)" by code_simp
  have w: "''well_description'' \<notin> set (columns example_sheet)" by code_simp
  have d: "''description'' \<in> set (columns example_sheet)" by code_simp
  have c: "removeAll ''description'' (columns example_sheet) @ [''well_description''] =
     [''sample_plate'', ''sample_well'', ''i7_index_id'', ''index'', ''i5_index_id'', ''index2'',
      ''sample_name'', ''sample_project'', ''lane'', ''experiment_design_description'',
      ''library_construction_protocol'', ''well_description'']"
    by code_simp
  have v: "column_values example_sheet ''description'' = [''a sample'', ''a sample'']"
    by code_simp
  have a: "aligned example_mapping_file" by code_simp
  have n: "rows example_mapping_file \<noteq> []" by code_simp
  have s: "''sample_name'' \<in> set (map py_lower (columns example_mapping_file))" by code_simp
  from assemblers_change_their_input[where run_path = sheet_run_path
      and pr = "(''2020-02-29'', ''M05314_0001_000000000'')" and mc = "(''Illumina MiSeq'', ''KLM'')"
      and sheet = example_sheet and fs = fs_sheet and pipeline = "''fastp-and-minimap2''"] p m r w d
  have 1: "columns (fst (preparations_for_run fs_sheet sheet_run_path example_sheet
                           ''fastp-and-minimap2'')) =
             removeAll ''description'' (columns example_sheet) @ [''well_description''] \<and>
           column_values (fst (preparations_for_run fs_sheet sheet_run_path example_sheet
                                 ''fastp-and-minimap2'')) ''well_description'' =
             column_values example_sheet ''description''"
    by blast
  from assemblers_change_their_input[where fs = fs_amplicon and run_path = "''/data/run''"
      and mf = example_mapping_file] a n s
  have 2: "''Sample_ID'' \<in> set (columns (fst (preparations_for_run_mapping_file fs_amplicon
                                                ''/data/run'' example_mapping_file)))"
    by blast
  from 1 2 show ?thesis unfolding c v by blast
qed

text \<open>
  Claim C9 as stated fails in both halves. A run path whose last component is no run
  identifier makes \<open>preparations_for_run\<close> fail before it touches the sheet, which keeps
  \<^verbatim>\<open>description\<close> and gets no \<^verbatim>\<open>well_description\<close>; and a mapping file without a column of
  sample names is left in lower case and with \<^verbatim>\<open>lane\<close>, but without \<^verbatim>\<open>Sample_ID\<close>,
  because the lookup of the sample name raises \<^verbatim>\<open>KeyError\<close>.
\<close>

theorem assemblers_change_their_input_counterexample:
  "''well_description'' \<notin> set (columns example_sheet) \<and>
   ''description'' \<in> set (columns example_sheet) \<and>
   preparations_for_run fs_sheet ''/data/bad'' example_sheet ''fastp-and-minimap2'' =
     (example_sheet, [], Inl (Unrecognized_run_id ''bad'')) \<and>
   preparations_for_run_mapping_file fs_empty ''/data/run'' nameless_mapping_file =
     (\<lparr>columns = [''barcode'', ''lane''],
       rows = [((), [(''barcode'', ''ACGT''), (''lane'', ''1'')])]\<rparr>,
      [], Inl (KeyError ''sample_name''))"
  by code_simp

subsection \<open>Loops\<close>




subsection \<open>Groups\<close>



subsection \<open>Rows\<close>









subsection \<open>The loops of \<open>preparations_for_run\<close>\<close>











end
